theory Spec2Isabelle
  imports Main
begin

section \<open>The journey panel: media, heartbeat and drift state\<close>

text \<open>
  The panel component (\<^verbatim>\<open>JourneyPanel\<close>) keeps its state in React state cells and refs.
  The embedding keeps one record of all of them and passes it through every operation.
  An \<^verbatim>\<open>async\<close> operation is run to its end in one step; what the awaited browser or
  network call answers is an argument of the operation (its environment).
\<close>

subsection \<open>Media streams and tracks\<close>

datatype track_kind = VideoTrack | AudioTrack

datatype ready_state = Live | Ended

record track =
  kind :: track_kind
  readyState :: ready_state
  enabled :: bool

text \<open>
  A \<^verbatim>\<open>MediaStream\<close> is a mutable object that several cells alias (the state cell, the
  ref mirror). The store holds the tracks of every stream created so far; a stream handle is
  its index in the store.
\<close>

type_synonym stream_store = "track list list"

definition getTracks :: "stream_store \<Rightarrow> nat \<Rightarrow> track list" where
  "getTracks h s = (if s < length h then h ! s else [])"

definition getVideoTracks :: "stream_store \<Rightarrow> nat \<Rightarrow> track list" where
  "getVideoTracks h s = filter (\<lambda>t. kind t = VideoTrack) (getTracks h s)"

definition stop :: "track \<Rightarrow> track" where
  "stop t = t\<lparr>readyState := Ended\<rparr>"

text \<open>\<^verbatim>\<open>stream.getTracks().forEach(track => track.stop())\<close>\<close>

definition stopTracks :: "stream_store \<Rightarrow> nat \<Rightarrow> stream_store" where
  "stopTracks h s = h[s := map stop (getTracks h s)]"

text \<open>\<^verbatim>\<open>stream.getVideoTracks().forEach(track => track.stop())\<close>\<close>

definition stopVideoTracks :: "stream_store \<Rightarrow> nat \<Rightarrow> stream_store" where
  "stopVideoTracks h s =
     h[s := map (\<lambda>t. if kind t = VideoTrack then stop t else t) (getTracks h s)]"

text \<open>\<^verbatim>\<open>stream.active\<close>: some track of the stream has not ended.\<close>

definition active :: "stream_store \<Rightarrow> nat \<Rightarrow> bool" where
  "active h s = list_ex (\<lambda>t. readyState t = Live) (getTracks h s)"

definition released :: "stream_store \<Rightarrow> nat \<Rightarrow> bool" where
  "released h s = list_all (\<lambda>t. readyState t = Ended) (getTracks h s)"

subsection \<open>Errors, requests and timers\<close>

datatype js_error = JsError (err_name: string) (err_message: string)

datatype constraint_set = HighQuality | MediumQuality | BasicQuality | MinimalConstraints

record session_stats =
  totalDuration :: nat
  sailingDuration :: nat
  driftingDuration :: nat
  distractionCount :: nat
  focusPercentage :: nat

text \<open>Every call that leaves the panel: device requests, network requests, teardown calls.\<close>

datatype effect =
    GetUserMedia constraint_set
  | GetUserMediaAudio
  | GetDisplayMedia
  | InvokeSessionHeartbeat string "string option" "string option"
  | FetchJourneyWebhook string bool
  | FetchSplineProxy bool
  | FetchSessionEnd string
  | FetchSailingSummary string
  | RemoveChannel string
  | StartPassiveListening string
  | StopPassiveListening

text \<open>
  What a pending timer will run. A heartbeat tick is the closure
  \<^verbatim>\<open>() => sendHeartbeat(sessionId, isActive)\<close>: it holds the two arguments by value, and the
  \<^verbatim>\<open>sendHeartbeat\<close> of the render that scheduled it, whose \<^verbatim>\<open>isDrifting\<close> constant is the
  first component.
\<close>

datatype callback =
    HeartbeatTick bool string bool
  | RearmAcknowledgment
  | PassiveListeningStart string

record timer =
  handle :: nat
  due :: nat
  period :: "nat option"
  callback :: callback

datatype summary =
    EnhancedSummary string string session_stats
  | FallbackWithStats session_stats string
  | GenericFallback

subsection \<open>The panel state\<close>

record panel =
  currentSessionId :: "string option"
  isSessionActive :: bool
  sessionStartTime :: "nat option"
  sessionError :: "string option"
  isStartingSession :: bool
  realtimeChannelRef :: "string option"
  isVideoOn :: bool
  isScreenSharing :: bool
  isMicMuted :: bool
  videoStream :: "nat option"
  screenStream :: "nat option"
  micStream :: "nat option"
  videoStreamRef :: "nat option"
  screenStreamRef :: "nat option"
  heartbeatIntervalRef :: "nat option"
  isHeartbeatActive :: bool
  isDrifting :: bool
  driftReason :: string
  isDriftAcknowledged :: bool
  showControlPanel :: bool
  showSummaryPanel :: bool
  isLoadingSummary :: bool
  summaryData :: "summary option"
  streams :: stream_store
  timers :: "timer list"
  nextHandle :: nat
  now :: nat
  effects :: "effect list"

text \<open>The \<^verbatim>\<open>useState\<close> and \<^verbatim>\<open>useRef\<close> initial values; no stream, no timer, no call yet.\<close>

definition initial_panel :: panel where
  "initial_panel =
     \<lparr>currentSessionId = None, isSessionActive = False, sessionStartTime = None,
      sessionError = None, isStartingSession = False, realtimeChannelRef = None,
      isVideoOn = False, isScreenSharing = False, isMicMuted = False,
      videoStream = None, screenStream = None, micStream = None,
      videoStreamRef = None, screenStreamRef = None,
      heartbeatIntervalRef = None, isHeartbeatActive = False,
      isDrifting = False, driftReason = [], isDriftAcknowledged = False,
      showControlPanel = False, showSummaryPanel = False, isLoadingSummary = False,
      summaryData = None, streams = [], timers = [], nextHandle = 1, now = 0, effects = []\<rparr>"

subsection \<open>Camera: \<^verbatim>\<open>toggleVideo\<close>\<close>

definition constraintSets :: "constraint_set list" where
  "constraintSets = [HighQuality, MediumQuality, BasicQuality, MinimalConstraints]"

definition isPermissionError :: "js_error \<Rightarrow> bool" where
  "isPermissionError err =
     (err_name err = ''NotAllowedError'' \<or> err_name err = ''PermissionDeniedError'')"

text \<open>
  The \<^verbatim>\<open>for\<close> loop over the constraint sets. The device is a function from the constraint
  set to what \<^verbatim>\<open>getUserMedia\<close> answers for it: the tracks of a new stream, or the error it
  rejects with. The loop returns the requests it made, in order, and how it ended: a
  rethrown permission error, or \<^verbatim>\<open>stream\<close> and \<^verbatim>\<open>lastError\<close> after the last iteration.
\<close>

datatype loop_end = Rethrown js_error | LoopDone "track list option" "js_error option"

fun constraint_loop ::
  "(constraint_set \<Rightarrow> js_error + track list) \<Rightarrow> constraint_set list \<Rightarrow> js_error option
     \<Rightarrow> constraint_set list \<times> loop_end" where
  "constraint_loop gum [] lastError = ([], LoopDone None lastError)"
| "constraint_loop gum (c # cs) lastError =
     (case gum c of
        Inr stream \<Rightarrow> ([c], LoopDone (Some stream) lastError)
      | Inl err \<Rightarrow>
          if isPermissionError err then ([c], Rethrown err)
          else (case constraint_loop gum cs (Some err) of (reqs, r) \<Rightarrow> (c # reqs, r)))"

definition newline :: string where
  "newline = [CHR 0x0A]"

definition bullet :: string where
  "bullet = [CHR 0xE2, CHR 0x80, CHR 0xA2, CHR '' '']"

definition camera_error_message :: "js_error \<Rightarrow> string" where
  "camera_error_message err =
     ''Failed to access camera. '' @
     (if isPermissionError err then ''Please allow camera access in your browser settings.''
      else if err_name err = ''NotFoundError'' then ''No camera found on this device.''
      else if err_name err = ''NotReadableError'' then
        ''Camera is unavailable. This usually means:'' @ newline @
        bullet @ ''Another application is using the camera (close other video apps)'' @ newline @
        bullet @ ''Camera hardware issue (try restarting your browser)'' @ newline @
        bullet @ ''OS-level camera restrictions'' @ newline @
        ''The session will continue without camera monitoring.''
      else if err_name err = ''OverconstrainedError'' then
        ''Camera does not support the required settings.''
      else ''Please check your camera settings. Error: '' @ err_message err)"

text \<open>The \<^verbatim>\<open>catch\<close> block of \<^verbatim>\<open>toggleVideo\<close>.\<close>

definition toggleVideo_catch :: "js_error \<Rightarrow> panel \<Rightarrow> panel" where
  "toggleVideo_catch err st =
     st\<lparr>sessionError := Some (camera_error_message err),
        isVideoOn := False, videoStream := None, videoStreamRef := None\<rparr>"

definition notLiveError :: js_error where
  "notLiveError = JsError ''Error'' ''Camera stream is not live''"

definition allFailedError :: js_error where
  "allFailedError = JsError ''Error'' ''Failed to start camera with all constraint sets''"

text \<open>
  From the constraint sets to the end of \<^verbatim>\<open>toggleVideo\<close>: the loop, the check that a
  stream came back, the check that its first video track is live, and the state updates.
  The new stream object is entered in the store as soon as \<^verbatim>\<open>getUserMedia\<close> has answered.
\<close>

definition startCamera :: "(constraint_set \<Rightarrow> js_error + track list) \<Rightarrow> panel \<Rightarrow> panel" where
  "startCamera gum st =
     (case constraint_loop gum constraintSets None of
        (reqs, r) \<Rightarrow>
          let st1 = st\<lparr>effects := effects st @ map GetUserMedia reqs\<rparr> in
          (case r of
             Rethrown err \<Rightarrow> toggleVideo_catch err st1
           | LoopDone None lastError \<Rightarrow>
               toggleVideo_catch (case lastError of Some e \<Rightarrow> e | None \<Rightarrow> allFailedError) st1
           | LoopDone (Some ts) lastError \<Rightarrow>
               let s = length (streams st1);
                   st2 = st1\<lparr>streams := streams st1 @ [ts]\<rparr>
               in (case getVideoTracks (streams st2) s of
                     [] \<Rightarrow>
                       toggleVideo_catch notLiveError (st2\<lparr>streams := stopTracks (streams st2) s\<rparr>)
                   | videoTrack # _ \<Rightarrow>
                       if readyState videoTrack \<noteq> Live
                       then toggleVideo_catch notLiveError
                              (st2\<lparr>streams := stopTracks (streams st2) s\<rparr>)
                       else st2\<lparr>videoStream := Some s, videoStreamRef := Some s,
                               isVideoOn := True\<rparr>)))"

text \<open>
  \<^verbatim>\<open>toggleVideo\<close>. With a stream in the state cell: camera on turns it off; camera off and
  the stream active returns at once (the guard against duplicate requests); otherwise the
  video tracks of the old stream are stopped and the camera is started. The element ref
  \<^verbatim>\<open>videoRef\<close> is never attached to an element, so its branches do nothing.
\<close>

definition toggleVideo :: "(constraint_set \<Rightarrow> js_error + track list) \<Rightarrow> panel \<Rightarrow> panel" where
  "toggleVideo gum st =
     (case videoStream st of
        Some s \<Rightarrow>
          if isVideoOn st
          then st\<lparr>streams := stopTracks (streams st) s, videoStream := None,
                  videoStreamRef := None, isVideoOn := False\<rparr>
          else if active (streams st) s then st
          else startCamera gum (st\<lparr>streams := stopVideoTracks (streams st) s\<rparr>)
      | None \<Rightarrow> startCamera gum st)"

text \<open>\<^verbatim>\<open>cleanupMediaStreams\<close>: each stream held in a state cell is stopped and its cell cleared.\<close>

definition cleanupMediaStreams :: "panel \<Rightarrow> panel" where
  "cleanupMediaStreams st =
     (let st1 = (case videoStream st of
                   Some s \<Rightarrow> st\<lparr>streams := stopTracks (streams st) s, videoStream := None,
                                videoStreamRef := None, isVideoOn := False\<rparr>
                 | None \<Rightarrow> st);
          st2 = (case screenStream st of
                   Some s \<Rightarrow> st1\<lparr>streams := stopTracks (streams st1) s, screenStream := None,
                                 screenStreamRef := None, isScreenSharing := False\<rparr>
                 | None \<Rightarrow> st1);
          st3 = (case micStream st of
                   Some s \<Rightarrow> st2\<lparr>streams := stopTracks (streams st2) s, micStream := None,
                                 isMicMuted := False\<rparr>
                 | None \<Rightarrow> st2)
      in st3\<lparr>effects := effects st3 @ [StopPassiveListening]\<rparr>)"

subsection \<open>Screen sharing: \<^verbatim>\<open>toggleScreenShare\<close>\<close>

text \<open>
  \<^verbatim>\<open>getDisplayMedia\<close> answers with the tracks of a new stream or rejects. A rejection, and a
  stream without a video track (the listener is added to \<^verbatim>\<open>getVideoTracks()[0]\<close>), end in
  the \<^verbatim>\<open>catch\<close> block; in the second case the state cells are already set.
\<close>

definition toggleScreenShare :: "(js_error + track list) \<Rightarrow> panel \<Rightarrow> panel" where
  "toggleScreenShare gdm st =
     (case (if isScreenSharing st then screenStream st else None) of
        Some s \<Rightarrow>
          st\<lparr>streams := stopTracks (streams st) s, screenStream := None,
             screenStreamRef := None, isScreenSharing := False\<rparr>
      | None \<Rightarrow>
          let st0 = st\<lparr>effects := effects st @ [GetDisplayMedia]\<rparr> in
          (case gdm of
             Inl err \<Rightarrow>
               st0\<lparr>sessionError :=
                     Some ''Failed to start screen sharing. Please check permissions.''\<rparr>
           | Inr ts \<Rightarrow>
               let s = length (streams st0);
                   st1 = st0\<lparr>streams := streams st0 @ [ts], screenStream := Some s,
                            screenStreamRef := Some s, isScreenSharing := True\<rparr>
               in if getVideoTracks (streams st1) s = []
                  then st1\<lparr>sessionError :=
                              Some ''Failed to start screen sharing. Please check permissions.''\<rparr>
                  else st1))"

text \<open>The \<^verbatim>\<open>ended\<close> listener of the shared screen's video track.\<close>

definition on_screen_track_ended :: "panel \<Rightarrow> panel" where
  "on_screen_track_ended st =
     st\<lparr>screenStream := None, screenStreamRef := None, isScreenSharing := False\<rparr>"

subsection \<open>Frame capture\<close>

text \<open>
  What the browser does during one capture: \<^verbatim>\<open>video.play()\<close> resolves or rejects,
  \<^verbatim>\<open>canvas.getContext('2d')\<close> returns a context or null, \<^verbatim>\<open>drawImage\<close> returns or throws,
  and \<^verbatim>\<open>canvas.toBlob\<close> throws, or calls back with a blob or with null. The wait for the
  metadata always resolves (event or one-second timeout). The canvas sizes are
  floating-point values on which no branch and no exception depends; they are left out.
\<close>

record capture_env =
  play :: "js_error option"
  has_context :: bool
  drawImage :: "js_error option"
  toBlob :: "js_error + string option"

text \<open>
  The \<^verbatim>\<open>try\<close> block of a capture. \<open>Inl\<close> is an exception thrown inside the block, which
  its \<^verbatim>\<open>catch\<close> receives. \<open>Inr\<close> is the promise that the last statement,
  \<^verbatim>\<open>return new Promise((resolve) => { canvas.toBlob(...) })\<close>, returns without awaiting
  it: the promise is rejected (\<open>Inl\<close>) when \<^verbatim>\<open>toBlob\<close> throws in the executor, and resolved
  (\<open>Inr\<close>) with what \<^verbatim>\<open>toBlob\<close> calls back with. The block has been left when the promise
  settles, so its \<^verbatim>\<open>catch\<close> does not see the rejection.
\<close>

definition capture_try :: "capture_env \<Rightarrow> js_error + (js_error + string option)" where
  "capture_try env =
     (case play env of
        Some playErr \<Rightarrow> Inl playErr
      | None \<Rightarrow>
          if \<not> has_context env then Inl (JsError ''Error'' ''Could not get canvas context'')
          else (case drawImage env of
                  Some drawErr \<Rightarrow> Inl drawErr
                | None \<Rightarrow> Inr (toBlob env)))"

text \<open>
  The two capture functions read the ref mirrors. Their result is what the promise of the
  \<^verbatim>\<open>async\<close> function settles to: \<open>Inr\<close> a blob or null when it resolves, \<open>Inl\<close> when it
  rejects. An exception caught by the \<^verbatim>\<open>catch\<close> block gives null; a returned promise gives
  its own outcome.
\<close>

definition captureCameraFrame :: "capture_env \<Rightarrow> panel \<Rightarrow> js_error + string option" where
  "captureCameraFrame env st =
     (case videoStreamRef st of
        None \<Rightarrow> Inr None
      | Some stream \<Rightarrow>
          (case capture_try env of Inl error \<Rightarrow> Inr None | Inr promise \<Rightarrow> promise))"

definition captureScreenFrame :: "capture_env \<Rightarrow> panel \<Rightarrow> js_error + string option" where
  "captureScreenFrame env st =
     (case screenStreamRef st of
        None \<Rightarrow> Inr None
      | Some stream \<Rightarrow>
          (case capture_try env of Inl error \<Rightarrow> Inr None | Inr promise \<Rightarrow> promise))"

subsection \<open>Scene changes\<close>

datatype fetch_answer = Responded bool | Rejected

text \<open>
  \<^verbatim>\<open>triggerSplineDriftScene(isDriftingScene, retries = 3)\<close>: without a signed-in user it
  returns; otherwise it posts to the webhook and, when the response is not ok or the request
  fails, calls itself with one retry less while \<^verbatim>\<open>retries > 1\<close>. The result is the list of
  requests made. The answer to a request is a function of the \<^verbatim>\<open>retries\<close> left.
\<close>

fun triggerSplineDriftScene ::
  "string option \<Rightarrow> (nat \<Rightarrow> fetch_answer) \<Rightarrow> bool \<Rightarrow> nat \<Rightarrow> effect list" where
  "triggerSplineDriftScene currentUser answer isDriftingScene retries =
     (case currentUser of
        None \<Rightarrow> []
      | Some uid \<Rightarrow>
          FetchJourneyWebhook uid isDriftingScene #
          (if answer retries = Responded True then []
           else if retries > 1
                then triggerSplineDriftScene currentUser answer isDriftingScene (retries - 1)
                else []))"

text \<open>\<^verbatim>\<open>triggerSplineSessionAnimation\<close>: one request; every failure is logged and dropped.\<close>

definition triggerSplineSessionAnimation :: "bool \<Rightarrow> panel \<Rightarrow> panel" where
  "triggerSplineSessionAnimation isStart st = st\<lparr>effects := effects st @ [FetchSplineProxy isStart]\<rparr>"

subsection \<open>Heartbeat: \<^verbatim>\<open>sendHeartbeat\<close>, \<^verbatim>\<open>startHeartbeat\<close>, \<^verbatim>\<open>stopHeartbeat\<close>\<close>

record heartbeat_data =
  is_drifting :: bool
  drift_reason :: "string option"
  actual_task :: "string option"

text \<open>
  The answer of \<^verbatim>\<open>supabase.functions.invoke\<close>: the call rejects, or it resolves with
  \<^verbatim>\<open>error\<close> set, or with \<^verbatim>\<open>data\<close>, which may be null.
\<close>

datatype invoke_answer = InvokeRejected | InvokeError | InvokeData "heartbeat_data option"

record heartbeat_env =
  camera_capture :: capture_env
  screen_capture :: capture_env
  blobToBase64 :: "string \<Rightarrow> string option"
  invoke :: invoke_answer
  user :: "string option"
  webhook :: "nat \<Rightarrow> fetch_answer"

text \<open>\<^verbatim>\<open>blob ? await blobToBase64(blob) : null\<close>; the outer \<open>None\<close> is the rejected read.\<close>

definition encode_image :: "(string \<Rightarrow> string option) \<Rightarrow> string option \<Rightarrow> string option option" where
  "encode_image enc blob =
     (case blob of None \<Rightarrow> Some None | Some b \<Rightarrow> map_option Some (enc b))"

definition default_drift_reason :: string where
  "default_drift_reason = ''Focus has drifted from the task''"

text \<open>
  The end of \<^verbatim>\<open>sendHeartbeat\<close>, from \<^verbatim>\<open>const newDriftState = data.is_drifting\<close> on: what
  a heartbeat result does to the drift state. The constant \<^verbatim>\<open>isDrifting\<close> that the body
  tests belongs to the render that created this \<^verbatim>\<open>sendHeartbeat\<close>; it is the first argument
  here. The setters act on the current state. The second branch only logs.
\<close>

definition handle_drift_state ::
  "bool \<Rightarrow> heartbeat_data \<Rightarrow> string option \<Rightarrow> (nat \<Rightarrow> fetch_answer) \<Rightarrow> panel \<Rightarrow> panel" where
  "handle_drift_state isDrifting_const data currentUser answer st =
     (let newDriftState = is_drifting data in
      if newDriftState \<and> \<not> isDrifting_const
      then st\<lparr>isDrifting := True,
              driftReason :=
                (case drift_reason data of
                   Some r \<Rightarrow> if r = [] then default_drift_reason else r
                 | None \<Rightarrow> default_drift_reason),
              isDriftAcknowledged := False,
              effects := effects st @ triggerSplineDriftScene currentUser answer True 3\<rparr>
      else if \<not> newDriftState \<and> isDrifting_const then st
      else st)"

text \<open>
  \<^verbatim>\<open>sendHeartbeat(sessionId, isActive)\<close>. Every exception inside the \<^verbatim>\<open>try\<close> block (a
  rejected capture, a failed encoding, a rejected call, null data) is logged and the
  function returns.
\<close>

definition sendHeartbeat :: "bool \<Rightarrow> string \<Rightarrow> bool \<Rightarrow> heartbeat_env \<Rightarrow> panel \<Rightarrow> panel" where
  "sendHeartbeat isDrifting_const sessionId isActive env st =
     (if sessionId = [] \<or> \<not> isActive then st
      else
        (case (captureCameraFrame (camera_capture env) st,
               captureScreenFrame (screen_capture env) st) of
           (Inr cameraBlob, Inr screenBlob) \<Rightarrow>
             if cameraBlob = None \<and> screenBlob = None then st
             else
               (case (encode_image (blobToBase64 env) cameraBlob,
                      encode_image (blobToBase64 env) screenBlob) of
                  (Some cameraImageBase64, Some screenImageBase64) \<Rightarrow>
                    let st1 = st\<lparr>effects := effects st @
                                 [InvokeSessionHeartbeat sessionId cameraImageBase64
                                    screenImageBase64]\<rparr>
                    in (case invoke env of
                          InvokeData (Some data) \<Rightarrow>
                            handle_drift_state isDrifting_const data (user env) (webhook env) st1
                        | _ \<Rightarrow> st1)
                | _ \<Rightarrow> st)
         | _ \<Rightarrow> st))"

text \<open>
  \<^verbatim>\<open>startHeartbeat(sessionId, isActive)\<close>. A timer handle is never falsy (a positive
  integer in a browser, an object in Node), so the test of the ref is a test for null. The
  8-second timeout and the 60-second interval run the same closure; only the handle of the
  interval is kept.
\<close>

definition startHeartbeat :: "string \<Rightarrow> bool \<Rightarrow> panel \<Rightarrow> panel" where
  "startHeartbeat sessionId isActive st =
     (case heartbeatIntervalRef st of
        Some h \<Rightarrow> st
      | None \<Rightarrow>
          let tick = HeartbeatTick (isDrifting st) sessionId isActive;
              h = nextHandle st
          in st\<lparr>isHeartbeatActive := True,
                timers := timers st @
                  [\<lparr>handle = h, due = now st + 8000, period = None, callback = tick\<rparr>,
                   \<lparr>handle = h + 1, due = now st + 60000, period = Some 60000, callback = tick\<rparr>],
                nextHandle := h + 2,
                heartbeatIntervalRef := Some (h + 1)\<rparr>)"

definition clearInterval :: "nat \<Rightarrow> timer list \<Rightarrow> timer list" where
  "clearInterval h ts = filter (\<lambda>t. handle t \<noteq> h) ts"

definition stopHeartbeat :: "panel \<Rightarrow> panel" where
  "stopHeartbeat st =
     (case heartbeatIntervalRef st of
        Some h \<Rightarrow>
          st\<lparr>timers := clearInterval h (timers st), heartbeatIntervalRef := None,
             isHeartbeatActive := False\<rparr>
      | None \<Rightarrow> st)"

subsection \<open>Realtime channel\<close>

text \<open>A channel is named by the session it was opened for.\<close>

definition setupRealtimeChannel :: "string \<Rightarrow> panel \<Rightarrow> panel" where
  "setupRealtimeChannel sessionId st =
     (let st1 = (case realtimeChannelRef st of
                   Some c \<Rightarrow> st\<lparr>effects := effects st @ [RemoveChannel c]\<rparr>
                 | None \<Rightarrow> st)
      in st1\<lparr>realtimeChannelRef := Some sessionId\<rparr>)"

definition cleanupRealtimeChannel :: "panel \<Rightarrow> panel" where
  "cleanupRealtimeChannel st =
     (case realtimeChannelRef st of
        Some c \<Rightarrow> st\<lparr>effects := effects st @ [RemoveChannel c], realtimeChannelRef := None\<rparr>
      | None \<Rightarrow> st)"

text \<open>The handler of the \<^verbatim>\<open>session_ended\<close> broadcast registered by \<^verbatim>\<open>setupRealtimeChannel\<close>.\<close>

definition on_session_ended :: "panel \<Rightarrow> panel" where
  "on_session_ended st = st\<lparr>isSessionActive := False, currentSessionId := None\<rparr>"

subsection \<open>Manual recovery: \<^verbatim>\<open>handleContinueWorking\<close>\<close>

definition handleContinueWorking :: "string option \<Rightarrow> (nat \<Rightarrow> fetch_answer) \<Rightarrow> panel \<Rightarrow> panel" where
  "handleContinueWorking currentUser answer st =
     st\<lparr>isDriftAcknowledged := True,
        isDrifting := False,
        effects := effects st @ triggerSplineDriftScene currentUser answer False 3,
        timers := timers st @
          [\<lparr>handle = nextHandle st, due = now st + 60000, period = None,
            callback = RearmAcknowledgment\<rparr>],
        nextHandle := nextHandle st + 1\<rparr>"

subsection \<open>Session start: \<^verbatim>\<open>startSailingSession\<close>\<close>

text \<open>
  The environment of a session start: the id of the selected task (a constant of the
  render), and the answers of \<^verbatim>\<open>auth.startSession\<close>, of the microphone request, of the
  camera requests and of \<^verbatim>\<open>getDisplayMedia\<close>.
\<close>

record start_env =
  selectedTask :: "string option"
  startSession :: "js_error + string"
  microphone :: "js_error + track list"
  camera :: "constraint_set \<Rightarrow> js_error + track list"
  display :: "js_error + track list"

text \<open>
  Steps 2 to 5 of \<^verbatim>\<open>startSailingSession\<close>, once the backend has issued the session id:
  the realtime channel, the microphone, the camera if it is off, the screen if a stream is
  held but not shared, the start animation, and the session cells. The tests read the
  constants of the render, which the steps before them do not change.
\<close>

definition prepare_session :: "start_env \<Rightarrow> string \<Rightarrow> panel \<Rightarrow> panel" where
  "prepare_session env sessionId st =
     (let st1 = (setupRealtimeChannel sessionId st)
                   \<lparr>effects := effects (setupRealtimeChannel sessionId st) @ [GetUserMediaAudio]\<rparr>;
          st2 = (case microphone env of
                   Inr ts \<Rightarrow>
                     st1\<lparr>streams := streams st1 @ [ts],
                         micStream := Some (length (streams st1)),
                         isMicMuted := False\<rparr>
                 | Inl micError \<Rightarrow> st1);
          st3 = (if \<not> isVideoOn st \<and> videoStream st = None
                 then toggleVideo (camera env) st2 else st2);
          st4 = (if screenStream st \<noteq> None \<and> \<not> isScreenSharing st
                 then toggleScreenShare (display env) st3 else st3);
          st5 = triggerSplineSessionAnimation True st4
      in st5\<lparr>currentSessionId := Some sessionId, isSessionActive := True,
             sessionStartTime := Some (now st5)\<rparr>)"

text \<open>
  \<^verbatim>\<open>startSailingSession\<close>: the guards, the request for a session id, the steps above, the
  heartbeat, the timeout that starts passive listening two seconds later, the control panel.
\<close>

definition startSailingSession :: "start_env \<Rightarrow> panel \<Rightarrow> panel" where
  "startSailingSession env st =
     (case selectedTask env of
        None \<Rightarrow> st
      | Some taskId \<Rightarrow>
          if isStartingSession st \<or> isSessionActive st
             \<or> (case currentSessionId st of Some sid \<Rightarrow> sid \<noteq> [] | None \<Rightarrow> False)
          then st
          else
            let st0 = st\<lparr>isStartingSession := True, sessionError := None\<rparr> in
            (case startSession env of
               Inl err \<Rightarrow>
                 st0\<lparr>sessionError := Some (err_message err), isSessionActive := False,
                     currentSessionId := None, isStartingSession := False\<rparr>
             | Inr sessionId \<Rightarrow>
                 let st7 = startHeartbeat sessionId True (prepare_session env sessionId st0)
                 in st7\<lparr>timers := timers st7 @
                           [\<lparr>handle = nextHandle st7, due = now st7 + 2000, period = None,
                             callback = PassiveListeningStart sessionId\<rparr>],
                         nextHandle := nextHandle st7 + 1,
                         showControlPanel := True,
                         isStartingSession := False\<rparr>))"

subsection \<open>Session end: \<^verbatim>\<open>handleEndVoyage\<close>\<close>

record session_end_data =
  stats :: "session_stats option"
  ai_analysis :: "string option"

text \<open>
  The answer of the \<^verbatim>\<open>session-end\<close> request: the request fails, the response is not ok
  (with its status line), the body is not JSON, or the body is the data. The same for the
  summary request.
\<close>

datatype end_answer =
    EndRejected js_error
  | EndNotOk string
  | EndInvalidJson js_error
  | EndData session_end_data

datatype summary_answer =
    SummaryRejected js_error
  | SummaryNotOk
  | SummaryInvalidJson js_error
  | SummaryData string string

record end_env =
  session_end :: end_answer
  sailing_summary :: summary_answer

text \<open>The \<^verbatim>\<open>catch\<close> block of \<^verbatim>\<open>handleEndVoyage\<close>.\<close>

definition handleEndVoyage_catch :: "js_error \<Rightarrow> panel \<Rightarrow> panel" where
  "handleEndVoyage_catch err st =
     st\<lparr>sessionError := Some (err_message err), summaryData := Some GenericFallback,
        sessionStartTime := None\<rparr>"

definition undefinedProperty :: js_error where
  "undefinedProperty = JsError ''TypeError'' ''Cannot read properties of undefined''"

text \<open>The \<^verbatim>\<open>try\<close> block of \<^verbatim>\<open>handleEndVoyage\<close>, with the \<^verbatim>\<open>catch\<close> block applied where it throws.\<close>

definition handleEndVoyage_try :: "end_env \<Rightarrow> string \<Rightarrow> panel \<Rightarrow> panel" where
  "handleEndVoyage_try env sessionIdToEnd st =
     (let st1 = st\<lparr>effects := effects st @ [FetchSessionEnd sessionIdToEnd]\<rparr> in
      case session_end env of
        EndRejected err \<Rightarrow> handleEndVoyage_catch err st1
      | EndNotOk status \<Rightarrow>
          handleEndVoyage_catch (JsError ''Error'' (''Session end failed: '' @ status)) st1
      | EndInvalidJson err \<Rightarrow> handleEndVoyage_catch err st1
      | EndData sessionEndData \<Rightarrow>
          let st2 = triggerSplineSessionAnimation False st1;
              st3 = stopHeartbeat (cleanupMediaStreams (cleanupRealtimeChannel st2))
          in (case stats sessionEndData of
                None \<Rightarrow> handleEndVoyage_catch undefinedProperty st3
              | Some sts \<Rightarrow>
                  let st4 = st3\<lparr>effects := effects st3 @ [FetchSailingSummary sessionIdToEnd]\<rparr>
                  in (case sailing_summary env of
                        SummaryRejected err \<Rightarrow> handleEndVoyage_catch err st4
                      | SummaryInvalidJson err \<Rightarrow> handleEndVoyage_catch err st4
                      | SummaryData imageUrl summaryText \<Rightarrow>
                          st4\<lparr>summaryData := Some (EnhancedSummary imageUrl summaryText sts),
                              sessionStartTime := None\<rparr>
                      | SummaryNotOk \<Rightarrow>
                          (case ai_analysis sessionEndData of
                             None \<Rightarrow> handleEndVoyage_catch undefinedProperty st4
                           | Some analysis \<Rightarrow>
                               st4\<lparr>summaryData := Some (FallbackWithStats sts analysis),
                                   sessionStartTime := None\<rparr>))))"

definition handleEndVoyage :: "end_env \<Rightarrow> panel \<Rightarrow> panel" where
  "handleEndVoyage env st =
     (case (case currentSessionId st of
              Some sid \<Rightarrow> if sid = [] then None else Some sid
            | None \<Rightarrow> None) of
        None \<Rightarrow> st\<lparr>sessionError := Some ''No active session found''\<rparr>
      | Some sessionIdToEnd \<Rightarrow>
          let st1 = st\<lparr>sessionError := None, currentSessionId := None,
                      isSessionActive := False, isStartingSession := False,
                      showControlPanel := False, showSummaryPanel := True,
                      isLoadingSummary := True\<rparr>
          in (handleEndVoyage_try env sessionIdToEnd st1)\<lparr>isLoadingSummary := False\<rparr>)"

subsection \<open>Timers and events\<close>

text \<open>What a timer callback does when it runs.\<close>

definition run_callback :: "callback \<Rightarrow> heartbeat_env \<Rightarrow> panel \<Rightarrow> panel" where
  "run_callback cb env st =
     (case cb of
        HeartbeatTick isDrifting_const sessionId isActive \<Rightarrow>
          sendHeartbeat isDrifting_const sessionId isActive env st
      | RearmAcknowledgment \<Rightarrow> st\<lparr>isDriftAcknowledged := False\<rparr>
      | PassiveListeningStart sessionId \<Rightarrow>
          st\<lparr>effects := effects st @ [StartPassiveListening sessionId]\<rparr>)"

text \<open>
  The event loop runs the callback of a pending timer no earlier than its due time. A
  timeout is removed when it runs; an interval is set to run again one period later.
\<close>

definition fire :: "nat \<Rightarrow> heartbeat_env \<Rightarrow> panel \<Rightarrow> panel" where
  "fire h env st =
     (case find (\<lambda>t. handle t = h) (timers st) of
        None \<Rightarrow> st
      | Some t \<Rightarrow>
          if now st < due t then st
          else
            run_callback (callback t) env
              (st\<lparr>timers :=
                   (case period t of
                      None \<Rightarrow> clearInterval h (timers st)
                    | Some p \<Rightarrow>
                        map (\<lambda>u. if handle u = h then u\<lparr>due := now st + p\<rparr> else u)
                          (timers st))\<rparr>))"

text \<open>
  The \<^verbatim>\<open>Continue Working\<close> button of the drift notification, which is not
  \<^verbatim>\<open>handleContinueWorking\<close>: it only sets the acknowledgment.
\<close>

definition on_notification_continue :: "panel \<Rightarrow> panel" where
  "on_notification_continue st = st\<lparr>isDriftAcknowledged := True\<rparr>"

text \<open>
  The cleanup of the mount effect. Its closure is the one of the first render, where the
  three stream cells are null: its \<^verbatim>\<open>cleanupMediaStreams\<close> stops no stream and only calls
  \<^verbatim>\<open>stopPassiveListening\<close>. The channel and the heartbeat are reached through refs.
\<close>

definition unmount :: "panel \<Rightarrow> panel" where
  "unmount st =
     (let st1 = cleanupRealtimeChannel st
      in stopHeartbeat (st1\<lparr>effects := effects st1 @ [StopPassiveListening]\<rparr>))"

text \<open>
  What can happen to the panel: time passes, a timer runs, the user or the backend
  triggers one of the handlers above, the panel is unmounted. The handlers for tasks, for
  the microphone button and for the permission panel touch neither the drift state nor the
  timers and are left out.
\<close>

datatype event =
    Advance nat
  | Fire nat heartbeat_env
  | ToggleVideo "constraint_set \<Rightarrow> js_error + track list"
  | ToggleScreenShare "js_error + track list"
  | ScreenTrackEnded
  | StartSailingSession start_env
  | ContinueWorking "string option" "nat \<Rightarrow> fetch_answer"
  | NotificationContinue
  | SessionEndedRemotely
  | EndVoyage end_env
  | Unmount

fun step :: "event \<Rightarrow> panel \<Rightarrow> panel" where
  "step (Advance d) st = st\<lparr>now := now st + d\<rparr>"
| "step (Fire h env) st = fire h env st"
| "step (ToggleVideo gum) st = toggleVideo gum st"
| "step (ToggleScreenShare gdm) st = toggleScreenShare gdm st"
| "step ScreenTrackEnded st = on_screen_track_ended st"
| "step (StartSailingSession env) st = startSailingSession env st"
| "step (ContinueWorking currentUser answer) st = handleContinueWorking currentUser answer st"
| "step NotificationContinue st = on_notification_continue st"
| "step SessionEndedRemotely st = on_session_ended st"
| "step (EndVoyage env) st = handleEndVoyage env st"
| "step Unmount st = unmount st"

fun run :: "event list \<Rightarrow> panel \<Rightarrow> panel" where
  "run [] st = st"
| "run (e # es) st = run es (step e st)"

text \<open>A sequence of heartbeat evaluations, each with its own arguments and answers.\<close>

fun heartbeats :: "(bool \<times> string \<times> bool \<times> heartbeat_env) list \<Rightarrow> panel \<Rightarrow> panel" where
  "heartbeats [] st = st"
| "heartbeats ((isDrifting_const, sessionId, isActive, env) # rest) st =
     heartbeats rest (sendHeartbeat isDrifting_const sessionId isActive env st)"

fun is_recovery :: "event \<Rightarrow> bool" where
  "is_recovery (ContinueWorking currentUser answer) = True"
| "is_recovery e = False"

text \<open>
  A request that fails with an error other than a permission denial: the loop goes on to
  the next constraint set.
\<close>

definition fails_without_denial :: "(constraint_set \<Rightarrow> js_error + track list) \<Rightarrow> constraint_set \<Rightarrow> bool" where
  "fails_without_denial gum c =
     (case gum c of Inl err \<Rightarrow> \<not> isPermissionError err | Inr stream \<Rightarrow> False)"

text \<open>The check of \<^verbatim>\<open>toggleVideo\<close> on a new stream: it has a video track and the first is live.\<close>

definition first_video_track_live :: "track list \<Rightarrow> bool" where
  "first_video_track_live ts =
     (case filter (\<lambda>t. kind t = VideoTrack) ts of
        [] \<Rightarrow> False
      | videoTrack # rest \<Rightarrow> readyState videoTrack = Live)"

text \<open>
  The recurring timers among the pending ones, and the invariant of the heartbeat timer:
  timer handles are distinct and older than the next handle; every recurring timer is a
  60-second heartbeat tick; the ref is null exactly when the active flag is false, and then
  there is no recurring timer; otherwise the one recurring timer is the one the ref holds.
\<close>

definition intervals :: "timer list \<Rightarrow> timer list" where
  "intervals ts = filter (\<lambda>t. period t \<noteq> None) ts"

fun is_heartbeat_tick :: "callback \<Rightarrow> bool" where
  "is_heartbeat_tick (HeartbeatTick c sid act) = True"
| "is_heartbeat_tick cb = False"

definition heartbeat_invariant :: "panel \<Rightarrow> bool" where
  "heartbeat_invariant st =
     (list_all (\<lambda>t. handle t < nextHandle st) (timers st)
      \<and> distinct (map handle (timers st))
      \<and> list_all (\<lambda>t. period t = Some 60000 \<and> is_heartbeat_tick (callback t))
           (intervals (timers st))
      \<and> (case heartbeatIntervalRef st of
            None \<Rightarrow> \<not> isHeartbeatActive st \<and> intervals (timers st) = []
          | Some h \<Rightarrow> isHeartbeatActive st \<and> map handle (intervals (timers st)) = [h]))"

text \<open>The events that reach \<^verbatim>\<open>stopHeartbeat\<close>.\<close>

fun stops_heartbeat :: "event \<Rightarrow> bool" where
  "stops_heartbeat (EndVoyage env) = True"
| "stops_heartbeat Unmount = True"
| "stops_heartbeat e = False"

subsection \<open>Example environments\<close>

definition live_camera :: "track list" where
  "live_camera = [\<lparr>kind = VideoTrack, readyState = Live, enabled = True\<rparr>]"

definition live_microphone :: "track list" where
  "live_microphone = [\<lparr>kind = AudioTrack, readyState = Live, enabled = True\<rparr>]"

definition camera_granted :: "constraint_set \<Rightarrow> js_error + track list" where
  "camera_granted c = Inr live_camera"

definition good_capture :: capture_env where
  "good_capture =
     \<lparr>play = None, has_context = True, drawImage = None, toBlob = Inr (Some ''frame'')\<rparr>"

definition failing_capture :: capture_env where
  "failing_capture =
     \<lparr>play = None, has_context = False, drawImage = None, toBlob = Inr (Some ''frame'')\<rparr>"

text \<open>A capture in which every step succeeds up to \<^verbatim>\<open>canvas.toBlob\<close>, which throws.\<close>

definition toBlob_error :: js_error where
  "toBlob_error = JsError ''SecurityError'' ''The operation is insecure.''"

definition throwing_toBlob :: capture_env where
  "throwing_toBlob =
     \<lparr>play = None, has_context = True, drawImage = None, toBlob = Inl toBlob_error\<rparr>"

definition data_uri :: "string \<Rightarrow> string option" where
  "data_uri b = Some (''data:image/jpeg;base64,'' @ b)"

definition webhook_ok :: "nat \<Rightarrow> fetch_answer" where
  "webhook_ok n = Responded True"

definition heartbeat_reporting :: "bool \<Rightarrow> string option \<Rightarrow> heartbeat_env" where
  "heartbeat_reporting drifting reason =
     \<lparr>camera_capture = good_capture, screen_capture = good_capture, blobToBase64 = data_uri,
      invoke = InvokeData (Some \<lparr>is_drifting = drifting, drift_reason = reason,
                                 actual_task = None\<rparr>),
      user = Some ''u1'', webhook = webhook_ok\<rparr>"

text \<open>Cameras: one busy at the two higher qualities, one denied at the second request, one
  whose stream arrives with its video track already ended.\<close>

definition ended_camera :: "track list" where
  "ended_camera = [\<lparr>kind = VideoTrack, readyState = Ended, enabled = True\<rparr>]"

fun camera_busy_then_basic :: "constraint_set \<Rightarrow> js_error + track list" where
  "camera_busy_then_basic HighQuality = Inl (JsError ''NotReadableError'' ''Could not start video source'')"
| "camera_busy_then_basic MediumQuality = Inl (JsError ''OverconstrainedError'' ''frameRate'')"
| "camera_busy_then_basic c = Inr live_camera"

fun camera_denied_on_second :: "constraint_set \<Rightarrow> js_error + track list" where
  "camera_denied_on_second HighQuality = Inl (JsError ''NotReadableError'' ''Could not start video source'')"
| "camera_denied_on_second MediumQuality = Inl (JsError ''NotAllowedError'' ''Permission denied'')"
| "camera_denied_on_second c = Inr live_camera"

definition camera_not_live :: "constraint_set \<Rightarrow> js_error + track list" where
  "camera_not_live c = Inr ended_camera"

text \<open>The panel after the camera has been switched on once.\<close>

definition camera_on_panel :: panel where
  "camera_on_panel = toggleVideo camera_granted initial_panel"

text \<open>
  A session start for task \<open>t1\<close>: the backend issues the id \<open>s1\<close>, microphone and camera are
  granted. In the state it leads to from \<^const>\<open>initial_panel\<close>, the microphone is stream 0,
  the camera stream 1, the warm-up timeout has handle 1 and the heartbeat interval handle 2.
\<close>

definition session_s1 :: start_env where
  "session_s1 =
     \<lparr>selectedTask = Some ''t1'', startSession = Inr ''s1'', microphone = Inr live_microphone,
      camera = camera_granted,
      display = Inl (JsError ''NotAllowedError'' ''Permission denied'')\<rparr>"

definition started_s1 :: panel where
  "started_s1 = run [StartSailingSession session_s1] initial_panel"

text \<open>The same session after its first heartbeat, at 8 seconds, has reported a drift.\<close>

definition drifted_s1 :: panel where
  "drifted_s1 =
     run [Advance 8000, Fire 1 (heartbeat_reporting True (Some ''looking away''))] started_s1"

text \<open>Two ways a session end can go: the backend finalizes it, or answers with status 500.\<close>

definition stats_s1 :: session_stats where
  "stats_s1 =
     \<lparr>totalDuration = 600, sailingDuration = 480, driftingDuration = 120,
      distractionCount = 2, focusPercentage = 80\<rparr>"

definition end_succeeds :: end_env where
  "end_succeeds =
     \<lparr>session_end = EndData \<lparr>stats = Some stats_s1, ai_analysis = Some ''steady''\<rparr>,
      sailing_summary = SummaryData ''summary.png'' ''A calm voyage.''\<rparr>"

definition end_fails :: end_env where
  "end_fails =
     \<lparr>session_end = EndNotOk ''500 Internal Server Error'',
      sailing_summary = SummaryData ''summary.png'' ''A calm voyage.''\<rparr>"

text \<open>
  A second session: after the first heartbeat of \<open>s1\<close> has reported a drift, the voyage is
  ended (the backend finalizes it) and a session for the same task is started, for which the
  backend issues the id \<open>s2\<close>.
\<close>

definition session_s2 :: start_env where
  "session_s2 =
     \<lparr>selectedTask = Some ''t1'', startSession = Inr ''s2'', microphone = Inr live_microphone,
      camera = camera_granted,
      display = Inl (JsError ''NotAllowedError'' ''Permission denied'')\<rparr>"

definition restarted_s2 :: panel where
  "restarted_s2 = run [EndVoyage end_succeeds, StartSailingSession session_s2] drifted_s1"

section \<open>Properties\<close>

subsection \<open>Evaluation of the example session\<close>

lemmas media_defs =
  getTracks_def getVideoTracks_def stop_def stopTracks_def stopVideoTracks_def active_def
  released_def

lemmas camera_defs =
  toggleVideo_def startCamera_def toggleVideo_catch_def constraintSets_def
  isPermissionError_def notLiveError_def allFailedError_def

lemmas heartbeat_defs =
  sendHeartbeat_def handle_drift_state_def captureCameraFrame_def captureScreenFrame_def
  capture_try_def encode_image_def default_drift_reason_def startHeartbeat_def
  stopHeartbeat_def clearInterval_def fire_def run_callback_def

lemmas example_defs =
  live_camera_def live_microphone_def camera_granted_def good_capture_def failing_capture_def
  data_uri_def webhook_ok_def heartbeat_reporting_def session_s1_def

lemma started_s1_eq:
  "started_s1 =
     \<lparr>currentSessionId = Some ''s1'', isSessionActive = True, sessionStartTime = Some 0,
      sessionError = None, isStartingSession = False, realtimeChannelRef = Some ''s1'',
      isVideoOn = True, isScreenSharing = False, isMicMuted = False,
      videoStream = Some 1, screenStream = None, micStream = Some 0,
      videoStreamRef = Some 1, screenStreamRef = None,
      heartbeatIntervalRef = Some 2, isHeartbeatActive = True,
      isDrifting = False, driftReason = [], isDriftAcknowledged = False,
      showControlPanel = True, showSummaryPanel = False, isLoadingSummary = False,
      summaryData = None,
      streams = [live_microphone, live_camera],
      timers =
        [\<lparr>handle = 1, due = 8000, period = None, callback = HeartbeatTick False ''s1'' True\<rparr>,
         \<lparr>handle = 2, due = 60000, period = Some 60000,
           callback = HeartbeatTick False ''s1'' True\<rparr>,
         \<lparr>handle = 3, due = 2000, period = None, callback = PassiveListeningStart ''s1''\<rparr>],
      nextHandle = 4, now = 0,
      effects = [GetUserMediaAudio, GetUserMedia HighQuality, FetchSplineProxy True]\<rparr>"
  by (simp add: started_s1_def initial_panel_def session_s1_def startSailingSession_def
      prepare_session_def setupRealtimeChannel_def triggerSplineSessionAnimation_def camera_defs camera_granted_def
      live_camera_def getVideoTracks_def getTracks_def startHeartbeat_def Let_def)

lemma drifted_s1_eq:
  "drifted_s1 =
     started_s1\<lparr>isDrifting := True, driftReason := ''looking away'',
       timers :=
         [\<lparr>handle = 2, due = 60000, period = Some 60000,
           callback = HeartbeatTick False ''s1'' True\<rparr>,
          \<lparr>handle = 3, due = 2000, period = None, callback = PassiveListeningStart ''s1''\<rparr>],
       now := 8000,
       effects := [GetUserMediaAudio, GetUserMedia HighQuality, FetchSplineProxy True,
                   InvokeSessionHeartbeat ''s1'' (Some ''data:image/jpeg;base64,frame'') None,
                   FetchJourneyWebhook ''u1'' True]\<rparr>"
  by (simp add: drifted_s1_def started_s1_eq heartbeat_defs heartbeat_reporting_def
      good_capture_def data_uri_def webhook_ok_def Let_def)

subsection \<open>Drift never clears by itself\<close>

lemma handle_drift_state_drifting:
  "isDrifting st \<Longrightarrow> isDrifting (handle_drift_state c d u a st)"
  by (simp add: handle_drift_state_def Let_def)

lemma handle_drift_state_focused_result:
  "\<not> is_drifting d \<Longrightarrow> handle_drift_state c d u a st = st"
  by (simp add: handle_drift_state_def)

lemma sendHeartbeat_drifting:
  "isDrifting st \<Longrightarrow> isDrifting (sendHeartbeat c sid act env st)"
  by (simp add: sendHeartbeat_def Let_def handle_drift_state_drifting
      split: sum.split option.split invoke_answer.split prod.split)

lemma heartbeats_drifting:
  "isDrifting st \<Longrightarrow> isDrifting (heartbeats calls st)"
  by (induction calls arbitrary: st) (auto simp add: sendHeartbeat_drifting)

lemma sendHeartbeat_focused_result:
  assumes "invoke env = InvokeData (Some d)" and "\<not> is_drifting d"
  shows "isDrifting (sendHeartbeat c sid act env st) = isDrifting st
    \<and> driftReason (sendHeartbeat c sid act env st) = driftReason st
    \<and> isDriftAcknowledged (sendHeartbeat c sid act env st) = isDriftAcknowledged st"
  using assms
  by (simp add: sendHeartbeat_def Let_def handle_drift_state_focused_result
      split: sum.split option.split prod.split)

text \<open>No handler other than the manual recovery writes \<^verbatim>\<open>isDrifting\<close> at all.\<close>

lemma toggleVideo_catch_isDrifting [simp]:
  "isDrifting (toggleVideo_catch err st) = isDrifting st"
  by (simp add: toggleVideo_catch_def)

lemma startCamera_isDrifting [simp]: "isDrifting (startCamera gum st) = isDrifting st"
  by (simp add: startCamera_def Let_def split: prod.split loop_end.split option.split list.split)

lemma toggleVideo_isDrifting [simp]: "isDrifting (toggleVideo gum st) = isDrifting st"
  by (simp add: toggleVideo_def split: option.split)

lemma toggleScreenShare_isDrifting [simp]: "isDrifting (toggleScreenShare gdm st) = isDrifting st"
  by (simp add: toggleScreenShare_def Let_def split: option.split sum.split)

lemma startHeartbeat_isDrifting [simp]: "isDrifting (startHeartbeat sid act st) = isDrifting st"
  by (simp add: startHeartbeat_def Let_def split: option.split)

lemma stopHeartbeat_isDrifting [simp]: "isDrifting (stopHeartbeat st) = isDrifting st"
  by (simp add: stopHeartbeat_def split: option.split)

lemma cleanupMediaStreams_isDrifting [simp]: "isDrifting (cleanupMediaStreams st) = isDrifting st"
  by (simp add: cleanupMediaStreams_def Let_def split: option.split)

lemma cleanupRealtimeChannel_isDrifting [simp]:
  "isDrifting (cleanupRealtimeChannel st) = isDrifting st"
  by (simp add: cleanupRealtimeChannel_def split: option.split)

lemma setupRealtimeChannel_isDrifting [simp]:
  "isDrifting (setupRealtimeChannel sid st) = isDrifting st"
  by (simp add: setupRealtimeChannel_def Let_def split: option.split)

lemma prepare_session_isDrifting [simp]:
  "isDrifting (prepare_session env sid st) = isDrifting st"
  by (simp add: prepare_session_def Let_def triggerSplineSessionAnimation_def split: sum.split)

lemma startSailingSession_isDrifting [simp]:
  "isDrifting (startSailingSession env st) = isDrifting st"
  by (simp add: startSailingSession_def Let_def split: option.split sum.split)

lemma handleEndVoyage_try_isDrifting [simp]:
  "isDrifting (handleEndVoyage_try env sid st) = isDrifting st"
  by (simp add: handleEndVoyage_try_def handleEndVoyage_catch_def Let_def
      triggerSplineSessionAnimation_def
      split: end_answer.split summary_answer.split option.split)

lemma handleEndVoyage_isDrifting [simp]: "isDrifting (handleEndVoyage env st) = isDrifting st"
  by (simp add: handleEndVoyage_def Let_def split: option.split)

lemma run_callback_drifting:
  "isDrifting st \<Longrightarrow> isDrifting (run_callback cb env st)"
  by (simp add: run_callback_def sendHeartbeat_drifting split: callback.split)

lemma fire_drifting: "isDrifting st \<Longrightarrow> isDrifting (fire h env st)"
  by (simp add: fire_def run_callback_drifting split: option.split)

lemma step_drifting:
  "isDrifting st \<Longrightarrow> \<not> is_recovery e \<Longrightarrow> isDrifting (step e st)"
  by (cases e)
    (simp_all add: fire_drifting on_screen_track_ended_def on_session_ended_def
      on_notification_continue_def unmount_def Let_def)

lemma run_drifting:
  "isDrifting st \<Longrightarrow> \<not> list_ex is_recovery es \<Longrightarrow> isDrifting (run es st)"
  by (induction es arbitrary: st) (simp_all add: step_drifting)

text \<open>
  C1. Once \<^verbatim>\<open>isDrifting\<close> is true it stays true under every sequence of heartbeat
  evaluations, whatever they report and whichever render's \<^verbatim>\<open>sendHeartbeat\<close> runs them, and
  under every sequence of panel events without a manual recovery. A heartbeat result with
  \<^verbatim>\<open>is_drifting = false\<close> that arrives while the panel is drifting changes none of the
  three drift cells. The manual recovery \<^verbatim>\<open>handleContinueWorking\<close> is what clears the flag.
\<close>

theorem drift_persists_until_manual_recovery:
  "(isDrifting st \<longrightarrow> isDrifting (heartbeats calls st))
   \<and> (isDrifting st \<and> \<not> list_ex is_recovery es \<longrightarrow> isDrifting (run es st))
   \<and> (isDrifting st \<and> invoke env = InvokeData (Some d) \<and> \<not> is_drifting d \<longrightarrow>
        isDrifting (sendHeartbeat c sid act env st)
        \<and> driftReason (sendHeartbeat c sid act env st) = driftReason st
        \<and> isDriftAcknowledged (sendHeartbeat c sid act env st) = isDriftAcknowledged st)
   \<and> \<not> isDrifting (handleContinueWorking u a st)"
proof -
  have "\<not> isDrifting (handleContinueWorking u a st)"
    by (simp add: handleContinueWorking_def)
  moreover have "isDrifting st \<and> invoke env = InvokeData (Some d) \<and> \<not> is_drifting d \<longrightarrow>
        isDrifting (sendHeartbeat c sid act env st)
        \<and> driftReason (sendHeartbeat c sid act env st) = driftReason st
        \<and> isDriftAcknowledged (sendHeartbeat c sid act env st) = isDriftAcknowledged st"
    using sendHeartbeat_focused_result [of env d c sid act st] by simp
  ultimately show ?thesis
    using heartbeats_drifting [of st calls] run_drifting [of st es] by blast
qed

text \<open>
  The session \<open>s1\<close> has drifted at 8 seconds. The interval then delivers two results saying
  focused, at 60 and 120 seconds; the state is still drifting, with its reason.
\<close>

theorem drift_persists_witness:
  "isDrifting drifted_s1
   \<and> isDrifting (heartbeats [(False, ''s1'', True, heartbeat_reporting False None),
                              (False, ''s1'', True, heartbeat_reporting False None)] drifted_s1)
   \<and> isDrifting (run [Advance 52000, Fire 2 (heartbeat_reporting False None),
                      Advance 60000, Fire 2 (heartbeat_reporting False None)] drifted_s1)
   \<and> driftReason (sendHeartbeat False ''s1'' True (heartbeat_reporting False None) drifted_s1)
       = ''looking away''
   \<and> \<not> isDrifting (handleContinueWorking (Some ''u1'') webhook_ok drifted_s1)"
  using drift_persists_until_manual_recovery
    [of drifted_s1
      "[(False, ''s1'', True, heartbeat_reporting False None),
        (False, ''s1'', True, heartbeat_reporting False None)]"
      "[Advance 52000, Fire 2 (heartbeat_reporting False None),
        Advance 60000, Fire 2 (heartbeat_reporting False None)]"
      "heartbeat_reporting False None"
      "\<lparr>is_drifting = False, drift_reason = None, actual_task = None\<rparr>"
      False "''s1''" True "Some ''u1''" webhook_ok]
  by (simp add: drifted_s1_eq started_s1_eq heartbeat_reporting_def)

subsection \<open>Manual recovery and its grace window\<close>

lemma find_fresh_handle:
  "list_all (\<lambda>t. handle t < n) ts \<Longrightarrow>
   find (\<lambda>t. handle t = n) (ts @ us) = find (\<lambda>t. handle t = n) us"
  by (induction ts) auto

lemma triggerSplineDriftScene_first:
  "\<exists>rest. triggerSplineDriftScene (Some uid) a scene n = FetchJourneyWebhook uid scene # rest"
  by (cases n) (simp_all del: triggerSplineDriftScene.simps add: triggerSplineDriftScene.simps [of "Some uid"])

lemma sendHeartbeat_delivered:
  assumes "sid \<noteq> []" and "act"
    and "captureCameraFrame (camera_capture env) st = Inr cam"
    and "captureScreenFrame (screen_capture env) st = Inr scr"
    and "cam \<noteq> None \<or> scr \<noteq> None"
    and "encode_image (blobToBase64 env) cam = Some cam64"
    and "encode_image (blobToBase64 env) scr = Some scr64"
    and "invoke env = InvokeData (Some d)"
  shows "sendHeartbeat c sid act env st =
     handle_drift_state c d (user env) (webhook env)
       (st\<lparr>effects := effects st @ [InvokeSessionHeartbeat sid cam64 scr64]\<rparr>)"
  using assms by (auto simp add: sendHeartbeat_def Let_def)

lemma handle_drift_state_enters:
  "is_drifting d \<Longrightarrow> \<not> c \<Longrightarrow>
   isDrifting (handle_drift_state c d u a st)
   \<and> \<not> isDriftAcknowledged (handle_drift_state c d u a st)"
  by (simp add: handle_drift_state_def)

lemma capture_handleContinueWorking [simp]:
  "captureCameraFrame cenv (handleContinueWorking u a st) = captureCameraFrame cenv st"
  "captureScreenFrame cenv (handleContinueWorking u a st) = captureScreenFrame cenv st"
  by (simp_all add: captureCameraFrame_def captureScreenFrame_def handleContinueWorking_def)

lemma rearm_not_before:
  assumes "list_all (\<lambda>t. handle t < nextHandle st) (timers st)" and "d < 60000"
  shows "fire (nextHandle st) env (step (Advance d) (handleContinueWorking u a st))
         = step (Advance d) (handleContinueWorking u a st)"
  using assms by (simp add: fire_def handleContinueWorking_def find_fresh_handle)

lemma rearm_after:
  assumes "list_all (\<lambda>t. handle t < nextHandle st) (timers st)" and "60000 \<le> d"
  shows "\<not> isDriftAcknowledged
           (fire (nextHandle st) env (step (Advance d) (handleContinueWorking u a st)))"
  using assms by (simp add: fire_def handleContinueWorking_def find_fresh_handle run_callback_def)

text \<open>
  What holds of the manual recovery, and under which conditions.
  \<^verbatim>\<open>handleContinueWorking\<close>, from any state, sets the acknowledgment, clears
  \<^verbatim>\<open>isDrifting\<close> and calls \<^verbatim>\<open>triggerSplineDriftScene(false)\<close>, whose first request (with a
  signed-in user) is the sailing scene. It schedules one timeout, 60000 ms from now, that
  clears the acknowledgment: in a state whose timer handles are all older than the next
  handle (every reachable state is one), that timeout cannot run before 60 seconds have
  passed, and when it runs the acknowledgment is false again. Meanwhile a heartbeat is not
  suppressed: one that is delivered (active session id, a frame captured and encoded, data returned) with
  \<^verbatim>\<open>is_drifting = true\<close>, run by a closure whose \<^verbatim>\<open>isDrifting\<close> is false, sets
  \<^verbatim>\<open>isDrifting\<close> and clears the acknowledgment.
\<close>

lemma handleContinueWorking_grace:
  "isDriftAcknowledged (handleContinueWorking u a st)
   \<and> \<not> isDrifting (handleContinueWorking u a st)
   \<and> effects (handleContinueWorking u a st) = effects st @ triggerSplineDriftScene u a False 3
   \<and> (\<exists>rest. triggerSplineDriftScene (Some uid) a False 3 = FetchJourneyWebhook uid False # rest)
   \<and> timers (handleContinueWorking u a st) =
       timers st @ [\<lparr>handle = nextHandle st, due = now st + 60000, period = None,
                     callback = RearmAcknowledgment\<rparr>]
   \<and> (list_all (\<lambda>t. handle t < nextHandle st) (timers st) \<and> d < 60000 \<longrightarrow>
        fire (nextHandle st) env (step (Advance d) (handleContinueWorking u a st))
          = step (Advance d) (handleContinueWorking u a st)
        \<and> isDriftAcknowledged (step (Advance d) (handleContinueWorking u a st)))
   \<and> (list_all (\<lambda>t. handle t < nextHandle st) (timers st) \<and> 60000 \<le> d \<longrightarrow>
        \<not> isDriftAcknowledged
            (fire (nextHandle st) env (step (Advance d) (handleContinueWorking u a st))))
   \<and> (sid \<noteq> [] \<and> act \<and> \<not> c
        \<and> captureCameraFrame (camera_capture env) st = Inr cam
        \<and> captureScreenFrame (screen_capture env) st = Inr scr
        \<and> (cam \<noteq> None \<or> scr \<noteq> None)
        \<and> encode_image (blobToBase64 env) cam = Some cam64
        \<and> encode_image (blobToBase64 env) scr = Some scr64
        \<and> invoke env = InvokeData (Some data) \<and> is_drifting data \<longrightarrow>
        isDrifting (sendHeartbeat c sid act env (handleContinueWorking u a st))
        \<and> \<not> isDriftAcknowledged (sendHeartbeat c sid act env (handleContinueWorking u a st)))"
proof -
  have scene: "\<exists>rest. triggerSplineDriftScene (Some uid) a False 3 = FetchJourneyWebhook uid False # rest"
    by (rule triggerSplineDriftScene_first)
  have sync: "isDriftAcknowledged (handleContinueWorking u a st)
      \<and> \<not> isDrifting (handleContinueWorking u a st)
      \<and> effects (handleContinueWorking u a st) = effects st @ triggerSplineDriftScene u a False 3
      \<and> timers (handleContinueWorking u a st) =
         timers st @ [\<lparr>handle = nextHandle st, due = now st + 60000, period = None,
                       callback = RearmAcknowledgment\<rparr>]"
    by (simp add: handleContinueWorking_def)
  have ack: "isDriftAcknowledged (step (Advance d) (handleContinueWorking u a st))"
    by (simp add: handleContinueWorking_def)
  have reenter: "isDrifting (sendHeartbeat c sid act env (handleContinueWorking u a st))
        \<and> \<not> isDriftAcknowledged (sendHeartbeat c sid act env (handleContinueWorking u a st))"
    if "sid \<noteq> []" "act" "\<not> c"
      "captureCameraFrame (camera_capture env) st = Inr cam"
      "captureScreenFrame (screen_capture env) st = Inr scr"
      "cam \<noteq> None \<or> scr \<noteq> None"
      "encode_image (blobToBase64 env) cam = Some cam64"
      "encode_image (blobToBase64 env) scr = Some scr64"
      "invoke env = InvokeData (Some data)" "is_drifting data"
    using that sendHeartbeat_delivered [of sid act env "handleContinueWorking u a st" cam scr cam64 scr64 data c]
    by (simp add: handle_drift_state_enters)
  show ?thesis
    using scene sync ack reenter rearm_not_before [of st d env u a] rearm_after [of st d env u a]
    by blast
qed


text \<open>
  Session \<open>s1\<close>, drifting since 8 seconds, is recovered by hand. The re-arm timeout (handle 4)
  does nothing 52 seconds later and clears the acknowledgment 60 seconds later; a heartbeat
  reporting a drift inside the window puts the panel back into drift.
\<close>

lemma handleContinueWorking_grace_s1:
  "isDriftAcknowledged (handleContinueWorking (Some ''u1'') webhook_ok drifted_s1)
   \<and> \<not> isDrifting (handleContinueWorking (Some ''u1'') webhook_ok drifted_s1)
   \<and> effects (handleContinueWorking (Some ''u1'') webhook_ok drifted_s1) =
       effects drifted_s1 @ [FetchJourneyWebhook ''u1'' False]
   \<and> isDriftAcknowledged
       (fire 4 (heartbeat_reporting True (Some ''phone''))
          (step (Advance 52000) (handleContinueWorking (Some ''u1'') webhook_ok drifted_s1)))
   \<and> \<not> isDriftAcknowledged
       (fire 4 (heartbeat_reporting True (Some ''phone''))
          (step (Advance 60000) (handleContinueWorking (Some ''u1'') webhook_ok drifted_s1)))
   \<and> isDrifting
       (sendHeartbeat False ''s1'' True (heartbeat_reporting True (Some ''phone''))
          (handleContinueWorking (Some ''u1'') webhook_ok drifted_s1))
   \<and> \<not> isDriftAcknowledged
       (sendHeartbeat False ''s1'' True (heartbeat_reporting True (Some ''phone''))
          (handleContinueWorking (Some ''u1'') webhook_ok drifted_s1))"
  using handleContinueWorking_grace
    [of "Some ''u1''" webhook_ok drifted_s1 "''u1''" 52000 "heartbeat_reporting True (Some ''phone'')"
      "''s1''" True False "Some ''frame''" None "Some ''data:image/jpeg;base64,frame''" None
      "\<lparr>is_drifting = True, drift_reason = Some ''phone'', actual_task = None\<rparr>"]
    handleContinueWorking_grace
    [of "Some ''u1''" webhook_ok drifted_s1 "''u1''" 60000 "heartbeat_reporting True (Some ''phone'')"
      "''s1''" True False "Some ''frame''" None "Some ''data:image/jpeg;base64,frame''" None
      "\<lparr>is_drifting = True, drift_reason = Some ''phone'', actual_task = None\<rparr>"]
  by (simp add: drifted_s1_eq started_s1_eq heartbeat_reporting_def good_capture_def
      data_uri_def webhook_ok_def captureCameraFrame_def captureScreenFrame_def capture_try_def
      encode_image_def)


lemma ended_drifted_eq:
  "handleEndVoyage end_succeeds drifted_s1 =
     drifted_s1\<lparr>currentSessionId := None, isSessionActive := False,
       showControlPanel := False, showSummaryPanel := True,
       summaryData := Some (EnhancedSummary ''summary.png'' ''A calm voyage.'' stats_s1),
       sessionStartTime := None, realtimeChannelRef := None,
       isVideoOn := False, videoStream := None, videoStreamRef := None, micStream := None,
       heartbeatIntervalRef := None, isHeartbeatActive := False,
       streams := [map stop live_microphone, map stop live_camera],
       timers :=
         [\<lparr>handle = 3, due = 2000, period = None, callback = PassiveListeningStart ''s1''\<rparr>],
       effects := effects drifted_s1 @
                  [FetchSessionEnd ''s1'', FetchSplineProxy False, RemoveChannel ''s1'',
                   StopPassiveListening, FetchSailingSummary ''s1'']\<rparr>"
  by (simp add: drifted_s1_eq started_s1_eq handleEndVoyage_def handleEndVoyage_try_def
      handleEndVoyage_catch_def end_succeeds_def Let_def triggerSplineSessionAnimation_def
      cleanupRealtimeChannel_def cleanupMediaStreams_def stopHeartbeat_def clearInterval_def
      stopTracks_def getTracks_def)

lemma restarted_s2_eq:
  "restarted_s2 =
     \<lparr>currentSessionId = Some ''s2'', isSessionActive = True, sessionStartTime = Some 8000,
      sessionError = None, isStartingSession = False, realtimeChannelRef = Some ''s2'',
      isVideoOn = True, isScreenSharing = False, isMicMuted = False,
      videoStream = Some 3, screenStream = None, micStream = Some 2,
      videoStreamRef = Some 3, screenStreamRef = None,
      heartbeatIntervalRef = Some 5, isHeartbeatActive = True,
      isDrifting = True, driftReason = ''looking away'', isDriftAcknowledged = False,
      showControlPanel = True, showSummaryPanel = True, isLoadingSummary = False,
      summaryData = Some (EnhancedSummary ''summary.png'' ''A calm voyage.'' stats_s1),
      streams = [map stop live_microphone, map stop live_camera, live_microphone, live_camera],
      timers =
        [\<lparr>handle = 3, due = 2000, period = None, callback = PassiveListeningStart ''s1''\<rparr>,
         \<lparr>handle = 4, due = 16000, period = None, callback = HeartbeatTick True ''s2'' True\<rparr>,
         \<lparr>handle = 5, due = 68000, period = Some 60000,
           callback = HeartbeatTick True ''s2'' True\<rparr>,
         \<lparr>handle = 6, due = 10000, period = None, callback = PassiveListeningStart ''s2''\<rparr>],
      nextHandle = 7, now = 8000,
      effects =
        [GetUserMediaAudio, GetUserMedia HighQuality, FetchSplineProxy True,
         InvokeSessionHeartbeat ''s1'' (Some ''data:image/jpeg;base64,frame'') None,
         FetchJourneyWebhook ''u1'' True, FetchSessionEnd ''s1'', FetchSplineProxy False,
         RemoveChannel ''s1'', StopPassiveListening, FetchSailingSummary ''s1'',
         GetUserMediaAudio, GetUserMedia HighQuality, FetchSplineProxy True]\<rparr>"
  (is "_ = ?state")
proof -
  have "restarted_s2 = startSailingSession session_s2 (handleEndVoyage end_succeeds drifted_s1)"
    by (simp add: restarted_s2_def)
  also have "\<dots> = startSailingSession session_s2
     (drifted_s1\<lparr>currentSessionId := None, isSessionActive := False,
       showControlPanel := False, showSummaryPanel := True,
       summaryData := Some (EnhancedSummary ''summary.png'' ''A calm voyage.'' stats_s1),
       sessionStartTime := None, realtimeChannelRef := None,
       isVideoOn := False, videoStream := None, videoStreamRef := None, micStream := None,
       heartbeatIntervalRef := None, isHeartbeatActive := False,
       streams := [map stop live_microphone, map stop live_camera],
       timers :=
         [\<lparr>handle = 3, due = 2000, period = None, callback = PassiveListeningStart ''s1''\<rparr>],
       effects := effects drifted_s1 @
                  [FetchSessionEnd ''s1'', FetchSplineProxy False, RemoveChannel ''s1'',
                   StopPassiveListening, FetchSailingSummary ''s1'']\<rparr>)"
    by (simp only: ended_drifted_eq)
  also have "\<dots> = ?state"
    by (simp add: drifted_s1_eq started_s1_eq
        session_s2_def startSailingSession_def prepare_session_def setupRealtimeChannel_def
        triggerSplineSessionAnimation_def camera_defs camera_granted_def live_camera_def
        getVideoTracks_def getTracks_def startHeartbeat_def Let_def)
  finally show ?thesis .
qed

text \<open>
  C2. The immediate part holds from any state: the acknowledgment is set, \<^verbatim>\<open>isDrifting\<close>
  is cleared and \<^verbatim>\<open>triggerSplineDriftScene(false)\<close> is called. The other two parts do not
  hold in every state the panel reaches.

  Detection: \<^verbatim>\<open>sendHeartbeat\<close> tests the \<^verbatim>\<open>isDrifting\<close> constant of the render whose
  \<^verbatim>\<open>startHeartbeat\<close> scheduled it, not the current cell. Session \<open>s1\<close> drifts and is ended,
  which leaves \<^verbatim>\<open>isDrifting\<close> true; session \<open>s2\<close> is started, and its ticks hold the constant
  true. Continue Working at 18 seconds clears the cell. At 68 seconds, inside the window,
  the interval sends its request and is told \<^verbatim>\<open>is_drifting = true\<close>: the cell stays false.

  Re-arming: the timeout of an earlier recovery is never cancelled. In session \<open>s1\<close>, a
  recovery at 8 seconds, a new drift at 60 seconds, and a second recovery at once: 8 seconds
  later the first timeout (handle 4) clears the acknowledgment.
\<close>

theorem drift_after_recovery_not_detected:
  "isDrifting drifted_s1
   \<and> isDrifting restarted_s2
   \<and> currentSessionId restarted_s2 = Some ''s2''
   \<and> map callback (timers restarted_s2) =
       [PassiveListeningStart ''s1'', HeartbeatTick True ''s2'' True,
        HeartbeatTick True ''s2'' True, PassiveListeningStart ''s2'']
   \<and> \<not> isDrifting
        (run [Advance 10000, ContinueWorking (Some ''u1'') webhook_ok] restarted_s2)
   \<and> isDriftAcknowledged
        (run [Advance 10000, ContinueWorking (Some ''u1'') webhook_ok] restarted_s2)
   \<and> now (run [Advance 10000, ContinueWorking (Some ''u1'') webhook_ok, Advance 50000]
             restarted_s2) = 68000
   \<and> effects
        (run [Advance 10000, ContinueWorking (Some ''u1'') webhook_ok, Advance 50000,
              Fire 5 (heartbeat_reporting True (Some ''phone''))] restarted_s2) =
       effects (run [Advance 10000, ContinueWorking (Some ''u1'') webhook_ok] restarted_s2) @
         [InvokeSessionHeartbeat ''s2'' (Some ''data:image/jpeg;base64,frame'') None]
   \<and> \<not> isDrifting
        (run [Advance 10000, ContinueWorking (Some ''u1'') webhook_ok, Advance 50000,
              Fire 5 (heartbeat_reporting True (Some ''phone''))] restarted_s2)
   \<and> isDriftAcknowledged
        (run [ContinueWorking (Some ''u1'') webhook_ok, Advance 52000,
              Fire 2 (heartbeat_reporting True (Some ''phone'')),
              ContinueWorking (Some ''u1'') webhook_ok, Advance 8000] drifted_s1)
   \<and> \<not> isDriftAcknowledged
        (run [ContinueWorking (Some ''u1'') webhook_ok, Advance 52000,
              Fire 2 (heartbeat_reporting True (Some ''phone'')),
              ContinueWorking (Some ''u1'') webhook_ok, Advance 8000,
              Fire 4 (heartbeat_reporting True (Some ''phone''))] drifted_s1)"
proof -
  have second: "isDrifting restarted_s2
   \<and> currentSessionId restarted_s2 = Some ''s2''
   \<and> map callback (timers restarted_s2) =
       [PassiveListeningStart ''s1'', HeartbeatTick True ''s2'' True,
        HeartbeatTick True ''s2'' True, PassiveListeningStart ''s2'']
   \<and> \<not> isDrifting
        (run [Advance 10000, ContinueWorking (Some ''u1'') webhook_ok] restarted_s2)
   \<and> isDriftAcknowledged
        (run [Advance 10000, ContinueWorking (Some ''u1'') webhook_ok] restarted_s2)
   \<and> now (run [Advance 10000, ContinueWorking (Some ''u1'') webhook_ok, Advance 50000]
             restarted_s2) = 68000
   \<and> effects
        (run [Advance 10000, ContinueWorking (Some ''u1'') webhook_ok, Advance 50000,
              Fire 5 (heartbeat_reporting True (Some ''phone''))] restarted_s2) =
       effects (run [Advance 10000, ContinueWorking (Some ''u1'') webhook_ok] restarted_s2) @
         [InvokeSessionHeartbeat ''s2'' (Some ''data:image/jpeg;base64,frame'') None]
   \<and> \<not> isDrifting
        (run [Advance 10000, ContinueWorking (Some ''u1'') webhook_ok, Advance 50000,
              Fire 5 (heartbeat_reporting True (Some ''phone''))] restarted_s2)"
    by (simp add: restarted_s2_eq handleContinueWorking_def heartbeat_defs heartbeat_reporting_def
        good_capture_def data_uri_def webhook_ok_def Let_def)
  have first: "isDrifting drifted_s1
   \<and> isDriftAcknowledged
        (run [ContinueWorking (Some ''u1'') webhook_ok, Advance 52000,
              Fire 2 (heartbeat_reporting True (Some ''phone'')),
              ContinueWorking (Some ''u1'') webhook_ok, Advance 8000] drifted_s1)
   \<and> \<not> isDriftAcknowledged
        (run [ContinueWorking (Some ''u1'') webhook_ok, Advance 52000,
              Fire 2 (heartbeat_reporting True (Some ''phone'')),
              ContinueWorking (Some ''u1'') webhook_ok, Advance 8000,
              Fire 4 (heartbeat_reporting True (Some ''phone''))] drifted_s1)"
    by (simp add: drifted_s1_eq started_s1_eq handleContinueWorking_def heartbeat_defs
        heartbeat_reporting_def good_capture_def data_uri_def webhook_ok_def Let_def)
  from first second show ?thesis by blast
qed

subsection \<open>Camera acquisition\<close>

lemma released_stopTracks: "released (stopTracks h s) s"
  by (auto simp add: released_def stopTracks_def getTracks_def stop_def list_all_iff)

lemma getTracks_append_new [simp]: "getTracks (h @ [ts]) (length h) = ts"
  by (simp add: getTracks_def)

lemma constraint_loop_success:
  "list_all (fails_without_denial gum) pre \<Longrightarrow> gum c = Inr ts \<Longrightarrow>
   \<exists>le. constraint_loop gum (pre @ c # post) lastErr = (pre @ [c], LoopDone (Some ts) le)"
proof (induction pre arbitrary: lastErr)
  case Nil
  then show ?case by simp
next
  case (Cons x pre)
  then obtain err where x: "gum x = Inl err" "\<not> isPermissionError err"
    by (auto simp add: fails_without_denial_def split: sum.splits)
  from Cons obtain le where
    "constraint_loop gum (pre @ c # post) (Some err) = (pre @ [c], LoopDone (Some ts) le)"
    by fastforce
  with x show ?case by simp
qed

lemma constraint_loop_denied:
  "list_all (fails_without_denial gum) pre \<Longrightarrow> gum c = Inl err \<Longrightarrow> isPermissionError err \<Longrightarrow>
   constraint_loop gum (pre @ c # post) lastErr = (pre @ [c], Rethrown err)"
proof (induction pre arbitrary: lastErr)
  case Nil
  then show ?case by simp
next
  case (Cons x pre)
  then obtain e where x: "gum x = Inl e" "\<not> isPermissionError e"
    by (auto simp add: fails_without_denial_def split: sum.splits)
  from Cons have
    "constraint_loop gum (pre @ c # post) (Some e) = (pre @ [c], Rethrown err)"
    by simp
  with x show ?case by simp
qed

lemma constraint_loop_exhausted:
  "list_all (fails_without_denial gum) cs \<Longrightarrow>
   \<exists>le. constraint_loop gum cs lastErr = (cs, LoopDone None le)"
proof (induction cs arbitrary: lastErr)
  case Nil
  then show ?case by simp
next
  case (Cons x cs)
  then obtain e where x: "gum x = Inl e" "\<not> isPermissionError e"
    by (auto simp add: fails_without_denial_def split: sum.splits)
  from Cons obtain le where "constraint_loop gum cs (Some e) = (cs, LoopDone None le)"
    by fastforce
  with x show ?case by simp
qed

lemma startCamera_live:
  assumes "constraint_loop gum constraintSets None = (reqs, LoopDone (Some ts) le)"
    and "first_video_track_live ts"
  shows "startCamera gum st =
     st\<lparr>effects := effects st @ map GetUserMedia reqs, streams := streams st @ [ts],
        videoStream := Some (length (streams st)), videoStreamRef := Some (length (streams st)),
        isVideoOn := True\<rparr>"
  using assms
  by (simp add: startCamera_def Let_def getVideoTracks_def first_video_track_live_def
      split: list.splits)

lemma startCamera_not_live:
  assumes "constraint_loop gum constraintSets None = (reqs, LoopDone (Some ts) le)"
    and "\<not> first_video_track_live ts"
  shows "startCamera gum st =
     st\<lparr>effects := effects st @ map GetUserMedia reqs,
        streams := stopTracks (streams st @ [ts]) (length (streams st)),
        sessionError := Some (camera_error_message notLiveError),
        isVideoOn := False, videoStream := None, videoStreamRef := None\<rparr>"
  using assms
  by (simp add: startCamera_def Let_def getVideoTracks_def first_video_track_live_def
      toggleVideo_catch_def split: list.splits)

lemma startCamera_denied:
  assumes "constraint_loop gum constraintSets None = (reqs, Rethrown err)"
  shows "startCamera gum st =
     st\<lparr>effects := effects st @ map GetUserMedia reqs,
        sessionError := Some (camera_error_message err),
        isVideoOn := False, videoStream := None, videoStreamRef := None\<rparr>"
  using assms by (simp add: startCamera_def Let_def toggleVideo_catch_def)

lemma startCamera_exhausted:
  assumes "constraint_loop gum constraintSets None = (reqs, LoopDone None le)"
  shows "effects (startCamera gum st) = effects st @ map GetUserMedia reqs
     \<and> videoStream (startCamera gum st) = None \<and> \<not> isVideoOn (startCamera gum st)
     \<and> sessionError (startCamera gum st) \<noteq> None"
  using assms by (simp add: startCamera_def Let_def toggleVideo_catch_def)

lemma denied_message:
  "isPermissionError err \<Longrightarrow> camera_error_message err =
     ''Failed to access camera. Please allow camera access in your browser settings.''"
  by (simp add: camera_error_message_def)

text \<open>
  C9. \<^verbatim>\<open>toggleVideo\<close> with no stream held requests the camera with the constraint sets
  high, medium, basic, minimal in this order. When the requests before some set fail with
  errors other than a permission denial and that set succeeds, exactly the sets up to it are
  requested; the stream is accepted if its first video track is live, and otherwise all its
  tracks are stopped, no handle is kept and the error is surfaced. When a request is
  rejected with NotAllowedError or PermissionDeniedError no further set is requested and
  the permission message is surfaced. When every request fails otherwise, all four were made.
\<close>

theorem camera_acquisition_fallback:
  assumes "videoStream st = None"
    and "constraintSets = pre @ c # post"
    and "list_all (fails_without_denial gum) pre"
  shows "constraintSets = [HighQuality, MediumQuality, BasicQuality, MinimalConstraints]
   \<and> (gum c = Inr ts \<longrightarrow>
        effects (toggleVideo gum st) = effects st @ map GetUserMedia (pre @ [c]))
   \<and> (gum c = Inr ts \<and> first_video_track_live ts \<longrightarrow>
        videoStream (toggleVideo gum st) = Some (length (streams st))
        \<and> isVideoOn (toggleVideo gum st)
        \<and> getTracks (streams (toggleVideo gum st)) (length (streams st)) = ts)
   \<and> (gum c = Inr ts \<and> \<not> first_video_track_live ts \<longrightarrow>
        released (streams (toggleVideo gum st)) (length (streams st))
        \<and> getTracks (streams (toggleVideo gum st)) (length (streams st)) = map stop ts
        \<and> videoStream (toggleVideo gum st) = None
        \<and> videoStreamRef (toggleVideo gum st) = None
        \<and> \<not> isVideoOn (toggleVideo gum st)
        \<and> sessionError (toggleVideo gum st) = Some (camera_error_message notLiveError))
   \<and> (gum c = Inl err \<and> isPermissionError err \<longrightarrow>
        effects (toggleVideo gum st) = effects st @ map GetUserMedia (pre @ [c])
        \<and> videoStream (toggleVideo gum st) = None
        \<and> sessionError (toggleVideo gum st) =
            Some ''Failed to access camera. Please allow camera access in your browser settings.'')
   \<and> (fails_without_denial gum c \<and> list_all (fails_without_denial gum) post \<longrightarrow>
        effects (toggleVideo gum st) = effects st @ map GetUserMedia constraintSets
        \<and> videoStream (toggleVideo gum st) = None
        \<and> sessionError (toggleVideo gum st) \<noteq> None)"
proof -
  have tv: "toggleVideo gum st = startCamera gum st"
    using assms(1) by (simp add: toggleVideo_def)
  have order: "constraintSets = [HighQuality, MediumQuality, BasicQuality, MinimalConstraints]"
    by (simp add: constraintSets_def)
  have ok: "effects (startCamera gum st) = effects st @ map GetUserMedia (pre @ [c])
      \<and> (first_video_track_live ts \<longrightarrow>
            videoStream (startCamera gum st) = Some (length (streams st))
            \<and> isVideoOn (startCamera gum st)
            \<and> getTracks (streams (startCamera gum st)) (length (streams st)) = ts)
      \<and> (\<not> first_video_track_live ts \<longrightarrow>
            released (streams (startCamera gum st)) (length (streams st))
            \<and> getTracks (streams (startCamera gum st)) (length (streams st)) = map stop ts
            \<and> videoStream (startCamera gum st) = None
            \<and> videoStreamRef (startCamera gum st) = None
            \<and> \<not> isVideoOn (startCamera gum st)
            \<and> sessionError (startCamera gum st) = Some (camera_error_message notLiveError))"
    if "gum c = Inr ts"
  proof -
    from constraint_loop_success [OF assms(3) that, of post None] assms(2)
    obtain le where loop:
      "constraint_loop gum constraintSets None = (pre @ [c], LoopDone (Some ts) le)"
      by auto
    show ?thesis
    proof (cases "first_video_track_live ts")
      case True
      then show ?thesis using startCamera_live [OF loop True, of st] by simp
    next
      case False
      then show ?thesis
        using startCamera_not_live [OF loop False, of st]
        by (simp add: released_stopTracks) (simp add: stopTracks_def getTracks_def)
    qed
  qed
  have denied: "effects (startCamera gum st) = effects st @ map GetUserMedia (pre @ [c])
      \<and> videoStream (startCamera gum st) = None
      \<and> sessionError (startCamera gum st) =
            Some ''Failed to access camera. Please allow camera access in your browser settings.''"
    if "gum c = Inl err" "isPermissionError err"
    using startCamera_denied [of gum "pre @ [c]" err st]
      constraint_loop_denied [OF assms(3) that, of post None] assms(2) that(2)
    by (simp add: denied_message)
  have exhausted: "effects (startCamera gum st) = effects st @ map GetUserMedia constraintSets
      \<and> videoStream (startCamera gum st) = None
      \<and> sessionError (startCamera gum st) \<noteq> None"
    if "fails_without_denial gum c" "list_all (fails_without_denial gum) post"
  proof -
    have "list_all (fails_without_denial gum) (pre @ c # post)"
      using assms(3) that by simp
    then have "list_all (fails_without_denial gum) constraintSets"
      using assms(2) by simp
    from constraint_loop_exhausted [OF this, of None]
    obtain le where "constraint_loop gum constraintSets None = (constraintSets, LoopDone None le)"
      by auto
    from startCamera_exhausted [OF this, of st] show ?thesis by simp
  qed
  show ?thesis
    unfolding tv using order ok denied exhausted by blast
qed

text \<open>
  A camera that is busy at high and medium quality is acquired at basic quality after three
  requests; a denial at the second request ends the attempts after two; a stream whose
  video track has ended is stopped and dropped.
\<close>

theorem camera_acquisition_fallback_witness:
  "effects (toggleVideo camera_busy_then_basic initial_panel) =
     [GetUserMedia HighQuality, GetUserMedia MediumQuality, GetUserMedia BasicQuality]
   \<and> videoStream (toggleVideo camera_busy_then_basic initial_panel) = Some 0
   \<and> getTracks (streams (toggleVideo camera_busy_then_basic initial_panel)) 0 = live_camera
   \<and> effects (toggleVideo camera_denied_on_second initial_panel) =
       [GetUserMedia HighQuality, GetUserMedia MediumQuality]
   \<and> videoStream (toggleVideo camera_denied_on_second initial_panel) = None
   \<and> effects (toggleVideo camera_not_live initial_panel) = [GetUserMedia HighQuality]
   \<and> released (streams (toggleVideo camera_not_live initial_panel)) 0
   \<and> getTracks (streams (toggleVideo camera_not_live initial_panel)) 0 = map stop ended_camera
   \<and> videoStream (toggleVideo camera_not_live initial_panel) = None"
proof -
  have none: "videoStream initial_panel = None"
    and empty: "effects initial_panel = []" "length (streams initial_panel) = 0"
    by (simp_all add: initial_panel_def)
  have soft: "list_all (fails_without_denial camera_busy_then_basic) [HighQuality, MediumQuality]"
    "list_all (fails_without_denial camera_denied_on_second) [HighQuality]"
    "list_all (fails_without_denial camera_not_live) []"
    by (simp_all add: fails_without_denial_def isPermissionError_def)
  have split3: "constraintSets = [HighQuality, MediumQuality] @ BasicQuality # [MinimalConstraints]"
    and split2: "constraintSets = [HighQuality] @ MediumQuality # [BasicQuality, MinimalConstraints]"
    and split1: "constraintSets = [] @ HighQuality # [MediumQuality, BasicQuality, MinimalConstraints]"
    by (simp_all add: constraintSets_def)
  have live: "first_video_track_live live_camera" and dead: "\<not> first_video_track_live ended_camera"
    by (simp_all add: first_video_track_live_def live_camera_def ended_camera_def)
  have denial: "isPermissionError (JsError ''NotAllowedError'' ''Permission denied'')"
    by (simp add: isPermissionError_def)
  have basic: "effects (toggleVideo camera_busy_then_basic initial_panel) =
       [GetUserMedia HighQuality, GetUserMedia MediumQuality, GetUserMedia BasicQuality]
     \<and> videoStream (toggleVideo camera_busy_then_basic initial_panel) = Some 0
     \<and> getTracks (streams (toggleVideo camera_busy_then_basic initial_panel)) 0 = live_camera"
    using camera_acquisition_fallback [OF none split3 soft(1), of live_camera] live empty
    by simp
  have denied: "effects (toggleVideo camera_denied_on_second initial_panel) =
       [GetUserMedia HighQuality, GetUserMedia MediumQuality]
     \<and> videoStream (toggleVideo camera_denied_on_second initial_panel) = None"
    using camera_acquisition_fallback [OF none split2 soft(2),
        of _ "JsError ''NotAllowedError'' ''Permission denied''"] denial empty
    by simp
  have stopped: "effects (toggleVideo camera_not_live initial_panel) = [GetUserMedia HighQuality]
     \<and> released (streams (toggleVideo camera_not_live initial_panel)) 0
     \<and> getTracks (streams (toggleVideo camera_not_live initial_panel)) 0 = map stop ended_camera
     \<and> videoStream (toggleVideo camera_not_live initial_panel) = None"
    using camera_acquisition_fallback [OF none split1 soft(3), of ended_camera] dead empty
    by (simp add: camera_not_live_def)
  from basic denied stopped show ?thesis by simp
qed

lemma camera_on_panel_eq:
  "camera_on_panel =
     initial_panel\<lparr>effects := [GetUserMedia HighQuality], streams := [live_camera],
       videoStream := Some 0, videoStreamRef := Some 0, isVideoOn := True\<rparr>"
  by (simp add: camera_on_panel_def initial_panel_def camera_defs camera_granted_def
      live_camera_def media_defs Let_def)

lemma live_camera_active: "active [live_camera] 0"
  by (simp add: active_def getTracks_def live_camera_def)

text \<open>
  C4. \<^verbatim>\<open>toggleVideo\<close> invoked while the state holds an active camera stream
  makes no device request. With \<^verbatim>\<open>isVideoOn\<close> false it returns at once and the state, the
  handle included, is unchanged. With \<^verbatim>\<open>isVideoOn\<close> true, which is the state a successful
  camera-on leaves, it is the off half of the toggle: the tracks are stopped and the handle
  is cleared.
\<close>

theorem toggle_video_with_active_stream:
  assumes "videoStream st = Some s" and "active (streams st) s"
  shows "effects (toggleVideo gum st) = effects st
   \<and> (\<not> isVideoOn st \<longrightarrow> toggleVideo gum st = st)
   \<and> (isVideoOn st \<longrightarrow>
        toggleVideo gum st =
          st\<lparr>streams := stopTracks (streams st) s, videoStream := None,
             videoStreamRef := None, isVideoOn := False\<rparr>
        \<and> released (streams (toggleVideo gum st)) s)"
  using assms by (simp add: toggleVideo_def released_stopTracks)

text \<open>
  Camera-on is not idempotent: after one successful camera-on the stream is live and active,
  and a second invocation does not leave the handle unchanged but stops and clears it.
\<close>

theorem camera_on_twice_counterexample:
  "videoStream camera_on_panel = Some 0
   \<and> isVideoOn camera_on_panel
   \<and> active (streams camera_on_panel) 0
   \<and> videoStream (toggleVideo camera_granted camera_on_panel) = None
   \<and> \<not> active (streams (toggleVideo camera_granted camera_on_panel)) 0"
  by (simp add: camera_on_panel_eq toggleVideo_def live_camera_active)
    (simp add: media_defs live_camera_def)

theorem toggle_video_with_active_stream_witness:
  "videoStream camera_on_panel = Some 0
   \<and> active (streams camera_on_panel) 0
   \<and> isVideoOn camera_on_panel
   \<and> effects (toggleVideo camera_granted camera_on_panel) = [GetUserMedia HighQuality]
   \<and> videoStream (toggleVideo camera_granted camera_on_panel) = None
   \<and> released (streams (toggleVideo camera_granted camera_on_panel)) 0
   \<and> toggleVideo camera_granted (camera_on_panel\<lparr>isVideoOn := False\<rparr>)
       = camera_on_panel\<lparr>isVideoOn := False\<rparr>"
proof -
  have s: "videoStream camera_on_panel = Some 0" "isVideoOn camera_on_panel"
    "active (streams camera_on_panel) 0" "effects camera_on_panel = [GetUserMedia HighQuality]"
    by (simp_all add: camera_on_panel_eq live_camera_active)
  have on: "effects (toggleVideo camera_granted camera_on_panel) = [GetUserMedia HighQuality]
     \<and> videoStream (toggleVideo camera_granted camera_on_panel) = None
     \<and> released (streams (toggleVideo camera_granted camera_on_panel)) 0"
    using toggle_video_with_active_stream [OF s(1) s(3), of camera_granted] s(2,4)
    by (simp add: released_stopTracks)
  have "videoStream (camera_on_panel\<lparr>isVideoOn := False\<rparr>) = Some 0"
    "active (streams (camera_on_panel\<lparr>isVideoOn := False\<rparr>)) 0"
    using s by simp_all
  from toggle_video_with_active_stream [OF this, of camera_granted]
  have "toggleVideo camera_granted (camera_on_panel\<lparr>isVideoOn := False\<rparr>)
       = camera_on_panel\<lparr>isVideoOn := False\<rparr>"
    by simp
  with s on show ?thesis by simp
qed

subsection \<open>The heartbeat timer\<close>

lemma heartbeat_invariant_frame:
  "timers st' = timers st \<Longrightarrow> nextHandle st' = nextHandle st \<Longrightarrow>
   heartbeatIntervalRef st' = heartbeatIntervalRef st \<Longrightarrow>
   isHeartbeatActive st' = isHeartbeatActive st \<Longrightarrow>
   heartbeat_invariant st' = heartbeat_invariant st"
  by (simp add: heartbeat_invariant_def split: option.split)

lemma intervals_append [simp]: "intervals (ts @ us) = intervals ts @ intervals us"
  by (simp add: intervals_def)

lemma handle_bound_fresh:
  "list_all (\<lambda>t. handle t < n) ts \<Longrightarrow> n \<le> m \<Longrightarrow> m \<notin> handle ` set ts"
  by (auto simp add: list_all_iff)

lemma handle_bound_mono:
  "list_all (\<lambda>t. handle t < n) ts \<Longrightarrow> n \<le> m \<Longrightarrow> list_all (\<lambda>t. handle t < m) ts"
  by (auto simp add: list_all_iff)

lemma heartbeat_invariant_timeout:
  assumes "heartbeat_invariant st"
    and "timers st' = timers st @ [\<lparr>handle = nextHandle st, due = x, period = None, callback = cb\<rparr>]"
    and "nextHandle st' = nextHandle st + 1"
    and "heartbeatIntervalRef st' = heartbeatIntervalRef st"
    and "isHeartbeatActive st' = isHeartbeatActive st"
  shows "heartbeat_invariant st'"
  using assms handle_bound_fresh [of "nextHandle st" "timers st" "nextHandle st"]
    handle_bound_mono [of "nextHandle st" "timers st" "Suc (nextHandle st)"]
  by (auto simp add: heartbeat_invariant_def intervals_def split: option.splits)

lemma heartbeat_invariant_start:
  assumes "heartbeat_invariant st"
  shows "heartbeat_invariant (startHeartbeat sid act st)"
proof (cases "heartbeatIntervalRef st")
  case None
  then show ?thesis
    using assms handle_bound_fresh [of "nextHandle st" "timers st" "nextHandle st"]
      handle_bound_fresh [of "nextHandle st" "timers st" "Suc (nextHandle st)"]
      handle_bound_mono [of "nextHandle st" "timers st" "Suc (Suc (nextHandle st))"]
    by (auto simp add: heartbeat_invariant_def startHeartbeat_def Let_def intervals_def)
next
  case (Some h)
  then show ?thesis using assms by (simp add: startHeartbeat_def)
qed

lemma intervals_clearInterval:
  "intervals (clearInterval h ts) = clearInterval h (intervals ts)"
  by (induction ts) (auto simp add: intervals_def clearInterval_def)

lemma clearInterval_only:
  "map handle ts = [h] \<Longrightarrow> clearInterval h ts = []"
  by (cases ts) (auto simp add: clearInterval_def)

lemma clearInterval_other:
  "h \<notin> handle ` set ts \<Longrightarrow> clearInterval h ts = ts"
  by (induction ts) (auto simp add: clearInterval_def)

lemma heartbeat_invariant_stop:
  assumes "heartbeat_invariant st"
  shows "heartbeat_invariant (stopHeartbeat st)"
proof (cases "heartbeatIntervalRef st")
  case None
  then show ?thesis using assms by (simp add: stopHeartbeat_def)
next
  case (Some h)
  then show ?thesis
    using assms
    by (auto simp add: heartbeat_invariant_def stopHeartbeat_def intervals_clearInterval
        clearInterval_only, auto simp add: clearInterval_def list_all_iff distinct_map_filter)
qed

lemma startCamera_heartbeat_frame [simp]:
  "timers (startCamera gum st) = timers st"
  "nextHandle (startCamera gum st) = nextHandle st"
  "heartbeatIntervalRef (startCamera gum st) = heartbeatIntervalRef st"
  "isHeartbeatActive (startCamera gum st) = isHeartbeatActive st"
  by (simp_all add: startCamera_def toggleVideo_catch_def Let_def
      split: prod.split loop_end.split option.split list.split)

lemma toggleVideo_heartbeat_frame [simp]:
  "timers (toggleVideo gum st) = timers st"
  "nextHandle (toggleVideo gum st) = nextHandle st"
  "heartbeatIntervalRef (toggleVideo gum st) = heartbeatIntervalRef st"
  "isHeartbeatActive (toggleVideo gum st) = isHeartbeatActive st"
  by (simp_all add: toggleVideo_def split: option.split)

lemma toggleScreenShare_heartbeat_frame [simp]:
  "timers (toggleScreenShare gdm st) = timers st"
  "nextHandle (toggleScreenShare gdm st) = nextHandle st"
  "heartbeatIntervalRef (toggleScreenShare gdm st) = heartbeatIntervalRef st"
  "isHeartbeatActive (toggleScreenShare gdm st) = isHeartbeatActive st"
  by (simp_all add: toggleScreenShare_def Let_def split: option.split sum.split)

lemma cleanupMediaStreams_heartbeat_frame [simp]:
  "timers (cleanupMediaStreams st) = timers st"
  "nextHandle (cleanupMediaStreams st) = nextHandle st"
  "heartbeatIntervalRef (cleanupMediaStreams st) = heartbeatIntervalRef st"
  "isHeartbeatActive (cleanupMediaStreams st) = isHeartbeatActive st"
  by (simp_all add: cleanupMediaStreams_def Let_def split: option.split)

lemma cleanupRealtimeChannel_heartbeat_frame [simp]:
  "timers (cleanupRealtimeChannel st) = timers st"
  "nextHandle (cleanupRealtimeChannel st) = nextHandle st"
  "heartbeatIntervalRef (cleanupRealtimeChannel st) = heartbeatIntervalRef st"
  "isHeartbeatActive (cleanupRealtimeChannel st) = isHeartbeatActive st"
  by (simp_all add: cleanupRealtimeChannel_def split: option.split)

lemma setupRealtimeChannel_heartbeat_frame [simp]:
  "timers (setupRealtimeChannel sid st) = timers st"
  "nextHandle (setupRealtimeChannel sid st) = nextHandle st"
  "heartbeatIntervalRef (setupRealtimeChannel sid st) = heartbeatIntervalRef st"
  "isHeartbeatActive (setupRealtimeChannel sid st) = isHeartbeatActive st"
  by (simp_all add: setupRealtimeChannel_def Let_def split: option.split)

lemma handle_drift_state_heartbeat_frame [simp]:
  "timers (handle_drift_state c d u a st) = timers st"
  "nextHandle (handle_drift_state c d u a st) = nextHandle st"
  "heartbeatIntervalRef (handle_drift_state c d u a st) = heartbeatIntervalRef st"
  "isHeartbeatActive (handle_drift_state c d u a st) = isHeartbeatActive st"
  by (simp_all add: handle_drift_state_def Let_def)

lemma sendHeartbeat_heartbeat_frame [simp]:
  "timers (sendHeartbeat c sid act env st) = timers st"
  "nextHandle (sendHeartbeat c sid act env st) = nextHandle st"
  "heartbeatIntervalRef (sendHeartbeat c sid act env st) = heartbeatIntervalRef st"
  "isHeartbeatActive (sendHeartbeat c sid act env st) = isHeartbeatActive st"
  by (simp_all add: sendHeartbeat_def Let_def
      split: sum.split option.split invoke_answer.split prod.split)

lemma run_callback_heartbeat_frame [simp]:
  "timers (run_callback cb env st) = timers st"
  "nextHandle (run_callback cb env st) = nextHandle st"
  "heartbeatIntervalRef (run_callback cb env st) = heartbeatIntervalRef st"
  "isHeartbeatActive (run_callback cb env st) = isHeartbeatActive st"
  by (simp_all add: run_callback_def split: callback.split)

lemma heartbeat_invariant_toggleVideo:
  "heartbeat_invariant (toggleVideo gum st) = heartbeat_invariant st"
  by (rule heartbeat_invariant_frame) simp_all

lemma heartbeat_invariant_toggleScreenShare:
  "heartbeat_invariant (toggleScreenShare gdm st) = heartbeat_invariant st"
  by (rule heartbeat_invariant_frame) simp_all

lemma heartbeat_invariant_continue:
  "heartbeat_invariant st \<Longrightarrow> heartbeat_invariant (handleContinueWorking u a st)"
  by (rule heartbeat_invariant_timeout [where x = "now st + 60000" and cb = RearmAcknowledgment])
    (simp_all add: handleContinueWorking_def)

lemma find_handle_Some:
  "find (\<lambda>t. handle t = h) ts = Some t \<Longrightarrow> t \<in> set ts \<and> handle t = h"
  by (induction ts) (auto split: if_splits)

lemma intervals_rearm:
  "intervals (map (\<lambda>u. if handle u = h then u\<lparr>due := x\<rparr> else u) ts) =
   map (\<lambda>u. if handle u = h then u\<lparr>due := x\<rparr> else u) (intervals ts)"
  by (induction ts) (auto simp add: intervals_def)

lemma handle_rearm_comp [simp]:
  "handle \<circ> (\<lambda>u. if handle u = h then u\<lparr>due := x\<rparr> else u) = handle"
  by (auto simp add: fun_eq_iff)

lemma heartbeat_invariant_rearm:
  assumes "heartbeat_invariant st"
    and "timers st' = map (\<lambda>u. if handle u = h then u\<lparr>due := x\<rparr> else u) (timers st)"
    and "nextHandle st' = nextHandle st"
    and "heartbeatIntervalRef st' = heartbeatIntervalRef st"
    and "isHeartbeatActive st' = isHeartbeatActive st"
  shows "heartbeat_invariant st'"
proof -
  let ?f = "\<lambda>u. if handle u = h then u\<lparr>due := x\<rparr> else u"
  have keep: "map handle (map ?f ts) = map handle ts" for ts
    by simp
  have per: "list_all (\<lambda>t. period t = Some 60000 \<and> is_heartbeat_tick (callback t)) ts \<Longrightarrow>
      list_all (\<lambda>t. period t = Some 60000 \<and> is_heartbeat_tick (callback t)) (map ?f ts)" for ts
    by (induction ts) auto
  have bound: "list_all (\<lambda>t. handle t < n) ts \<Longrightarrow> list_all (\<lambda>t. handle t < n) (map ?f ts)" for ts n
    by (induction ts) auto
  have empty: "intervals (timers st) = [] \<Longrightarrow> intervals (timers st') = []"
    using assms(2) by (simp add: intervals_rearm)
  have one: "map handle (intervals (timers st')) = map handle (intervals (timers st))"
    using assms(2) by (simp add: intervals_rearm)
  have "list_all (\<lambda>t. handle t < nextHandle st') (timers st')"
    using assms(1,2,3) bound [of "nextHandle st" "timers st"] by (simp add: heartbeat_invariant_def)
  moreover have "distinct (map handle (timers st'))"
    using assms(1,2) by (simp add: heartbeat_invariant_def)
  moreover have "list_all (\<lambda>t. period t = Some 60000 \<and> is_heartbeat_tick (callback t))
      (intervals (timers st'))"
    using assms(1,2) per [of "intervals (timers st)"]
    by (simp add: heartbeat_invariant_def intervals_rearm)
  moreover have "case heartbeatIntervalRef st' of
            None \<Rightarrow> \<not> isHeartbeatActive st' \<and> intervals (timers st') = []
          | Some h \<Rightarrow> isHeartbeatActive st' \<and> map handle (intervals (timers st')) = [h]"
    using assms(1,4,5) empty one
    by (auto simp add: heartbeat_invariant_def split: option.splits)
  ultimately show ?thesis
    by (simp add: heartbeat_invariant_def)
qed

lemma heartbeat_invariant_clear_timeout:
  assumes "heartbeat_invariant st" and "t \<in> set (timers st)" and "period t = None"
    and "timers st' = clearInterval (handle t) (timers st)"
    and "nextHandle st' = nextHandle st"
    and "heartbeatIntervalRef st' = heartbeatIntervalRef st"
    and "isHeartbeatActive st' = isHeartbeatActive st"
  shows "heartbeat_invariant st'"
proof -
  have "handle t \<notin> handle ` set (intervals (timers st))"
  proof
    assume "handle t \<in> handle ` set (intervals (timers st))"
    then obtain u where u: "u \<in> set (timers st)" "period u \<noteq> None" "handle u = handle t"
      by (auto simp add: intervals_def)
    from assms(1) have "distinct (map handle (timers st))"
      by (simp add: heartbeat_invariant_def)
    then have "inj_on handle (set (timers st))"
      by (simp add: distinct_map)
    with u assms(2) have "u = t" by (auto dest: inj_onD)
    with u assms(3) show False by simp
  qed
  then have same: "intervals (timers st') = intervals (timers st)"
    using assms(4) by (simp add: intervals_clearInterval clearInterval_other)
  have "list_all (\<lambda>u. handle u < nextHandle st) (timers st')"
    "distinct (map handle (timers st'))"
    using assms(1,4)
    by (auto simp add: heartbeat_invariant_def clearInterval_def list_all_iff distinct_map_filter)
  with same assms(1,5,6,7) show ?thesis
    by (auto simp add: heartbeat_invariant_def split: option.splits)
qed

lemma fire_fields:
  assumes "find (\<lambda>t. handle t = h) (timers st) = Some t" and "\<not> now st < due t"
  shows "timers (fire h env st) =
           (case period t of
              None \<Rightarrow> clearInterval h (timers st)
            | Some p \<Rightarrow> map (\<lambda>u. if handle u = h then u\<lparr>due := now st + p\<rparr> else u) (timers st))"
    and "nextHandle (fire h env st) = nextHandle st"
    and "heartbeatIntervalRef (fire h env st) = heartbeatIntervalRef st"
    and "isHeartbeatActive (fire h env st) = isHeartbeatActive st"
  using assms by (simp_all add: fire_def)

lemma fire_disabled:
  "find (\<lambda>t. handle t = h) (timers st) = None \<Longrightarrow> fire h env st = st"
  "find (\<lambda>t. handle t = h) (timers st) = Some t \<Longrightarrow> now st < due t \<Longrightarrow> fire h env st = st"
  by (simp_all add: fire_def)

lemma heartbeat_invariant_fire:
  assumes "heartbeat_invariant st"
  shows "heartbeat_invariant (fire h env st)"
proof (cases "find (\<lambda>t. handle t = h) (timers st)")
  case None
  then show ?thesis using assms by (simp add: fire_disabled)
next
  case (Some t)
  then have t: "t \<in> set (timers st)" "handle t = h"
    using find_handle_Some by blast+
  show ?thesis
  proof (cases "now st < due t")
    case True
    then show ?thesis using Some assms by (simp add: fire_disabled)
  next
    case False
    note ff = fire_fields [OF Some False, of env]
    show ?thesis
    proof (cases "period t")
      case None
      with ff(1) t(2) have "timers (fire h env st) = clearInterval (handle t) (timers st)"
        by simp
      from heartbeat_invariant_clear_timeout [OF assms t(1) None this ff(2) ff(3) ff(4)]
      show ?thesis .
    next
      case (Some p)
      with ff(1) have "timers (fire h env st) =
          map (\<lambda>u. if handle u = h then u\<lparr>due := now st + p\<rparr> else u) (timers st)"
        by simp
      from heartbeat_invariant_rearm [OF assms this ff(2) ff(3) ff(4)]
      show ?thesis .
    qed
  qed
qed

lemma prepare_session_heartbeat_frame [simp]:
  "timers (prepare_session env sid st) = timers st"
  "nextHandle (prepare_session env sid st) = nextHandle st"
  "heartbeatIntervalRef (prepare_session env sid st) = heartbeatIntervalRef st"
  "isHeartbeatActive (prepare_session env sid st) = isHeartbeatActive st"
  by (simp_all add: prepare_session_def Let_def triggerSplineSessionAnimation_def
      split: sum.split)

lemma heartbeat_invariant_startSailingSession:
  assumes "heartbeat_invariant st"
  shows "heartbeat_invariant (startSailingSession env st)"
proof (cases "startSailingSession env st = st")
  case True
  then show ?thesis using assms by simp
next
  case False
  then obtain taskId where task: "selectedTask env = Some taskId"
    by (cases "selectedTask env") (simp_all add: startSailingSession_def)
  from False task have guard: "\<not> (isStartingSession st \<or> isSessionActive st
      \<or> (case currentSessionId st of Some sid \<Rightarrow> sid \<noteq> [] | None \<Rightarrow> False))"
    by (auto simp add: startSailingSession_def)
  show ?thesis
  proof (cases "startSession env")
    case (Inl err)
    have "heartbeat_invariant (startSailingSession env st) = heartbeat_invariant st"
      using task guard Inl
      by (intro heartbeat_invariant_frame) (simp_all add: startSailingSession_def)
    with assms show ?thesis by simp
  next
    case (Inr sid)
    let ?st6 = "prepare_session env sid (st\<lparr>isStartingSession := True, sessionError := None\<rparr>)"
    let ?st7 = "startHeartbeat sid True ?st6"
    have "heartbeat_invariant ?st6 = heartbeat_invariant st"
      by (intro heartbeat_invariant_frame) simp_all
    with assms have "heartbeat_invariant ?st7"
      by (simp add: heartbeat_invariant_start)
    moreover have "timers (startSailingSession env st) =
        timers ?st7 @ [\<lparr>handle = nextHandle ?st7, due = now ?st7 + 2000, period = None,
                        callback = PassiveListeningStart sid\<rparr>]"
      "nextHandle (startSailingSession env st) = nextHandle ?st7 + 1"
      "heartbeatIntervalRef (startSailingSession env st) = heartbeatIntervalRef ?st7"
      "isHeartbeatActive (startSailingSession env st) = isHeartbeatActive ?st7"
      using task guard Inr by (simp_all add: startSailingSession_def Let_def)
    ultimately show ?thesis
      by (rule heartbeat_invariant_timeout)
  qed
qed

lemma handleEndVoyage_try_heartbeat_fields:
  "(timers (handleEndVoyage_try env sid st) = timers st
    \<and> nextHandle (handleEndVoyage_try env sid st) = nextHandle st
    \<and> heartbeatIntervalRef (handleEndVoyage_try env sid st) = heartbeatIntervalRef st
    \<and> isHeartbeatActive (handleEndVoyage_try env sid st) = isHeartbeatActive st)
   \<or> (timers (handleEndVoyage_try env sid st) = timers (stopHeartbeat st)
    \<and> nextHandle (handleEndVoyage_try env sid st) = nextHandle (stopHeartbeat st)
    \<and> heartbeatIntervalRef (handleEndVoyage_try env sid st) = heartbeatIntervalRef (stopHeartbeat st)
    \<and> isHeartbeatActive (handleEndVoyage_try env sid st) = isHeartbeatActive (stopHeartbeat st))"
  by (simp add: handleEndVoyage_try_def handleEndVoyage_catch_def Let_def
      triggerSplineSessionAnimation_def stopHeartbeat_def
      split: end_answer.split summary_answer.split option.split)

lemma heartbeat_invariant_handleEndVoyage_try:
  assumes "heartbeat_invariant st"
  shows "heartbeat_invariant (handleEndVoyage_try env sid st)"
  using handleEndVoyage_try_heartbeat_fields [of env sid st] assms
    heartbeat_invariant_frame [of "handleEndVoyage_try env sid st" st]
    heartbeat_invariant_frame [of "handleEndVoyage_try env sid st" "stopHeartbeat st"]
    heartbeat_invariant_stop [of st]
  by blast

lemma heartbeat_invariant_handleEndVoyage:
  assumes "heartbeat_invariant st"
  shows "heartbeat_invariant (handleEndVoyage env st)"
proof -
  let ?sid = "case currentSessionId st of
                Some sid \<Rightarrow> if sid = [] then None else Some sid | None \<Rightarrow> None"
  show ?thesis
  proof (cases ?sid)
    case None
    then have "heartbeat_invariant (handleEndVoyage env st) = heartbeat_invariant st"
      by (intro heartbeat_invariant_frame) (simp_all add: handleEndVoyage_def)
    with assms show ?thesis by simp
  next
    case (Some sid)
    let ?st1 = "st\<lparr>sessionError := None, currentSessionId := None,
                      isSessionActive := False, isStartingSession := False,
                      showControlPanel := False, showSummaryPanel := True,
                      isLoadingSummary := True\<rparr>"
    have "heartbeat_invariant ?st1 = heartbeat_invariant st"
      by (intro heartbeat_invariant_frame) simp_all
    with assms have "heartbeat_invariant (handleEndVoyage_try env sid ?st1)"
      by (simp add: heartbeat_invariant_handleEndVoyage_try)
    moreover have "heartbeat_invariant (handleEndVoyage env st) =
        heartbeat_invariant (handleEndVoyage_try env sid ?st1)"
      using Some by (intro heartbeat_invariant_frame) (simp_all add: handleEndVoyage_def Let_def)
    ultimately show ?thesis by simp
  qed
qed

lemma heartbeat_invariant_step:
  "heartbeat_invariant st \<Longrightarrow> heartbeat_invariant (step e st)"
proof (cases e)
  case (Advance d)
  assume "heartbeat_invariant st"
  moreover have "heartbeat_invariant (step e st) = heartbeat_invariant st"
    using Advance by (intro heartbeat_invariant_frame) simp_all
  ultimately show ?thesis by simp
next
  case ScreenTrackEnded
  assume "heartbeat_invariant st"
  moreover have "heartbeat_invariant (step e st) = heartbeat_invariant st"
    using ScreenTrackEnded
    by (intro heartbeat_invariant_frame) (simp_all add: on_screen_track_ended_def)
  ultimately show ?thesis by simp
next
  case SessionEndedRemotely
  assume "heartbeat_invariant st"
  moreover have "heartbeat_invariant (step e st) = heartbeat_invariant st"
    using SessionEndedRemotely
    by (intro heartbeat_invariant_frame) (simp_all add: on_session_ended_def)
  ultimately show ?thesis by simp
next
  case NotificationContinue
  assume "heartbeat_invariant st"
  moreover have "heartbeat_invariant (step e st) = heartbeat_invariant st"
    using NotificationContinue
    by (intro heartbeat_invariant_frame) (simp_all add: on_notification_continue_def)
  ultimately show ?thesis by simp
next
  case Unmount
  let ?st1 = "(cleanupRealtimeChannel st)
      \<lparr>effects := effects (cleanupRealtimeChannel st) @ [StopPassiveListening]\<rparr>"
  assume "heartbeat_invariant st"
  moreover have "heartbeat_invariant ?st1 = heartbeat_invariant st"
    by (intro heartbeat_invariant_frame) simp_all
  ultimately have "heartbeat_invariant (stopHeartbeat ?st1)"
    by (simp add: heartbeat_invariant_stop)
  then show ?thesis
    using Unmount by (simp add: unmount_def Let_def)
qed (simp_all add: heartbeat_invariant_fire heartbeat_invariant_toggleVideo
    heartbeat_invariant_toggleScreenShare heartbeat_invariant_startSailingSession
    heartbeat_invariant_continue heartbeat_invariant_handleEndVoyage)

lemma heartbeat_invariant_run:
  "heartbeat_invariant st \<Longrightarrow> heartbeat_invariant (run es st)"
  by (induction es arbitrary: st) (simp_all add: heartbeat_invariant_step)

lemma heartbeat_invariant_initial: "heartbeat_invariant initial_panel"
  by (simp add: heartbeat_invariant_def initial_panel_def intervals_def)

lemma heartbeat_invariant_reachable: "heartbeat_invariant (run es initial_panel)"
  by (simp add: heartbeat_invariant_run heartbeat_invariant_initial)

lemma startHeartbeat_sets_ref: "heartbeatIntervalRef (startHeartbeat sid act st) \<noteq> None"
  by (simp add: startHeartbeat_def Let_def split: option.split)

lemma startHeartbeat_active: "heartbeatIntervalRef st \<noteq> None \<Longrightarrow> startHeartbeat sid act st = st"
  by (auto simp add: startHeartbeat_def)

lemma fire_heartbeatIntervalRef [simp]:
  "heartbeatIntervalRef (fire h env st) = heartbeatIntervalRef st"
  by (simp add: fire_def split: option.split)

lemma startSailingSession_keeps_ref:
  "heartbeatIntervalRef st \<noteq> None \<Longrightarrow> heartbeatIntervalRef (startSailingSession env st) \<noteq> None"
  by (simp add: startSailingSession_def Let_def startHeartbeat_sets_ref
      split: option.split sum.split del: not_None_eq)

lemma step_keeps_ref:
  "heartbeatIntervalRef st \<noteq> None \<Longrightarrow> \<not> stops_heartbeat e \<Longrightarrow>
   heartbeatIntervalRef (step e st) \<noteq> None"
  by (cases e)
    (simp_all add: startSailingSession_keeps_ref handleContinueWorking_def
      on_screen_track_ended_def on_session_ended_def on_notification_continue_def
      del: not_None_eq)

lemma run_keeps_ref:
  "heartbeatIntervalRef st \<noteq> None \<Longrightarrow> \<not> list_ex stops_heartbeat es \<Longrightarrow>
   heartbeatIntervalRef (run es st) \<noteq> None"
  by (induction es arbitrary: st) (simp_all add: step_keeps_ref del: not_None_eq)

text \<open>
  C6. In every state the panel can reach, after a call of \<^verbatim>\<open>startHeartbeat\<close>, any events
  that do not stop the heartbeat, and a second call of \<^verbatim>\<open>startHeartbeat\<close>, there is
  exactly one recurring timer, it is a 60-second heartbeat tick, and the second call has
  changed nothing: it schedules no timer.
\<close>

theorem start_heartbeat_twice:
  assumes "\<not> list_ex stops_heartbeat between"
  shows "length (intervals (timers (startHeartbeat sid2 act2
            (run between (startHeartbeat sid1 act1 (run es initial_panel)))))) = 1
   \<and> list_all (\<lambda>t. period t = Some 60000 \<and> is_heartbeat_tick (callback t))
        (intervals (timers (startHeartbeat sid2 act2
            (run between (startHeartbeat sid1 act1 (run es initial_panel))))))
   \<and> startHeartbeat sid2 act2 (run between (startHeartbeat sid1 act1 (run es initial_panel)))
        = run between (startHeartbeat sid1 act1 (run es initial_panel))"
proof -
  let ?st = "run between (startHeartbeat sid1 act1 (run es initial_panel))"
  have inv: "heartbeat_invariant ?st"
    by (simp add: heartbeat_invariant_run heartbeat_invariant_start heartbeat_invariant_reachable)
  have ref: "heartbeatIntervalRef ?st \<noteq> None"
    using assms by (simp add: run_keeps_ref startHeartbeat_sets_ref)
  then have same: "startHeartbeat sid2 act2 ?st = ?st"
    by (rule startHeartbeat_active)
  from inv ref have "length (map handle (intervals (timers ?st))) = 1"
    by (auto simp add: heartbeat_invariant_def)
  then have "length (intervals (timers ?st)) = 1" by simp
  with inv same show ?thesis
    by (simp add: heartbeat_invariant_def)
qed

theorem start_heartbeat_twice_witness:
  "\<not> list_ex stops_heartbeat [Advance 8000]
   \<and> length (intervals (timers (startHeartbeat ''s2'' True
         (run [Advance 8000] (startHeartbeat ''s1'' True started_s1))))) = 1
   \<and> startHeartbeat ''s2'' True (run [Advance 8000] (startHeartbeat ''s1'' True started_s1))
       = run [Advance 8000] (startHeartbeat ''s1'' True started_s1)"
proof -
  have quiet: "\<not> list_ex stops_heartbeat [Advance 8000]"
    by simp
  have e: "run [StartSailingSession session_s1] initial_panel = started_s1"
    by (simp only: started_s1_def)
  from start_heartbeat_twice [OF quiet, of "''s2''" True "''s1''" True
      "[StartSailingSession session_s1]", unfolded e] quiet
  show ?thesis by blast
qed

subsection \<open>Frame capture\<close>

text \<open>
  What holds of the two capture functions: without a stream in the ref mirror they resolve
  to null, and when a step inside the \<^verbatim>\<open>try\<close> block throws (\<^verbatim>\<open>play\<close> rejected, no 2d
  context, \<^verbatim>\<open>drawImage\<close> throwing) they resolve to null.
\<close>

lemma capture_null_stream:
  "videoStreamRef st = None \<Longrightarrow> captureCameraFrame env st = Inr None"
  "screenStreamRef st = None \<Longrightarrow> captureScreenFrame env st = Inr None"
  by (simp_all add: captureCameraFrame_def captureScreenFrame_def)

lemma capture_caught_step:
  "capture_try env = Inl err \<Longrightarrow>
   captureCameraFrame env st = Inr None \<and> captureScreenFrame env st = Inr None"
  by (simp add: captureCameraFrame_def captureScreenFrame_def split: option.split)

lemma capture_toBlob_throws:
  assumes "play env = None" and "has_context env" and "drawImage env = None"
    and "toBlob env = Inl err"
  shows "videoStreamRef st = Some s \<Longrightarrow> captureCameraFrame env st = Inl err"
    and "screenStreamRef st = Some s \<Longrightarrow> captureScreenFrame env st = Inl err"
  using assms by (simp_all add: captureCameraFrame_def captureScreenFrame_def capture_try_def)

text \<open>
  C7. With no stream the capture functions return null, and a failing step inside the
  \<^verbatim>\<open>try\<close> block gives null. But one capture step is outside the reach of the
  \<^verbatim>\<open>catch\<close>: the promise around \<^verbatim>\<open>canvas.toBlob\<close> is returned without \<^verbatim>\<open>await\<close>. In
  session \<open>s1\<close>, with the camera live (and, after screen sharing is switched on, the
  screen), a capture in which \<^verbatim>\<open>toBlob\<close> throws does not return null: the promise of
  \<^verbatim>\<open>captureCameraFrame\<close> and of \<^verbatim>\<open>captureScreenFrame\<close> rejects with the exception.
\<close>

theorem capture_toBlob_throw_rejects:
  "captureCameraFrame throwing_toBlob initial_panel = Inr None
   \<and> captureScreenFrame throwing_toBlob initial_panel = Inr None
   \<and> captureCameraFrame failing_capture started_s1 = Inr None
   \<and> videoStreamRef started_s1 = Some 1
   \<and> captureCameraFrame throwing_toBlob started_s1 = Inl toBlob_error
   \<and> screenStreamRef (toggleScreenShare (Inr live_camera) started_s1) = Some 2
   \<and> captureScreenFrame throwing_toBlob (toggleScreenShare (Inr live_camera) started_s1)
       = Inl toBlob_error"
  by (simp add: initial_panel_def started_s1_eq captureCameraFrame_def captureScreenFrame_def
      capture_try_def throwing_toBlob_def failing_capture_def toggleScreenShare_def
      getVideoTracks_def getTracks_def live_camera_def live_microphone_def Let_def)

subsection \<open>Ending a session\<close>

text \<open>
  C8. \<^verbatim>\<open>handleEndVoyage\<close> without a session id (null, or the empty string, which is falsy
  too) sets the session error to \<open>No active session found\<close> and does nothing else: no request
  is made, and every other cell of the state, the streams and the timers are as before.
\<close>

theorem end_voyage_without_session:
  "currentSessionId st = None \<or> currentSessionId st = Some [] \<Longrightarrow>
   handleEndVoyage env st = st\<lparr>sessionError := Some ''No active session found''\<rparr>
   \<and> effects (handleEndVoyage env st) = effects st"
  by (auto simp add: handleEndVoyage_def)

theorem end_voyage_without_session_witness:
  "currentSessionId initial_panel = None
   \<and> handleEndVoyage end_succeeds initial_panel =
       initial_panel\<lparr>sessionError := Some ''No active session found''\<rparr>
   \<and> effects (handleEndVoyage end_succeeds initial_panel) = []"
  using end_voyage_without_session [of initial_panel end_succeeds]
  by (simp add: initial_panel_def)

text \<open>
  When the backend finalizes the session, \<^verbatim>\<open>handleEndVoyage\<close> reaches its cleanup step:
  every stream held in a state cell is stopped and its cell cleared, and the heartbeat
  interval is cleared. When the \<^verbatim>\<open>session-end\<close> request fails, is answered with an error
  status or with a body that is not JSON, control goes to the \<^verbatim>\<open>catch\<close> block, which has
  no cleanup: streams, stream cells, timers and the heartbeat ref are what they were.
\<close>

lemma ended_s1_failed_eq:
  "handleEndVoyage end_fails started_s1 =
     started_s1\<lparr>currentSessionId := None, isSessionActive := False,
       sessionError := Some ''Session end failed: 500 Internal Server Error'',
       showControlPanel := False, showSummaryPanel := True,
       summaryData := Some GenericFallback, sessionStartTime := None,
       effects := [GetUserMediaAudio, GetUserMedia HighQuality, FetchSplineProxy True, FetchSessionEnd ''s1'']\<rparr>"
  by (simp add: started_s1_eq handleEndVoyage_def handleEndVoyage_try_def
      handleEndVoyage_catch_def end_fails_def Let_def)

lemma ended_s1_eq:
  "handleEndVoyage end_succeeds started_s1 =
     started_s1\<lparr>currentSessionId := None, isSessionActive := False,
       showControlPanel := False, showSummaryPanel := True,
       summaryData := Some (EnhancedSummary ''summary.png'' ''A calm voyage.'' stats_s1),
       sessionStartTime := None, realtimeChannelRef := None,
       isVideoOn := False, videoStream := None, videoStreamRef := None, micStream := None,
       heartbeatIntervalRef := None, isHeartbeatActive := False,
       streams := [map stop live_microphone, map stop live_camera],
       timers :=
         [\<lparr>handle = 1, due = 8000, period = None, callback = HeartbeatTick False ''s1'' True\<rparr>,
          \<lparr>handle = 3, due = 2000, period = None, callback = PassiveListeningStart ''s1''\<rparr>],
       effects := [GetUserMediaAudio, GetUserMedia HighQuality, FetchSplineProxy True, FetchSessionEnd ''s1'',
                   FetchSplineProxy False, RemoveChannel ''s1'', StopPassiveListening,
                   FetchSailingSummary ''s1'']\<rparr>"
  by (simp add: started_s1_eq handleEndVoyage_def handleEndVoyage_try_def
      handleEndVoyage_catch_def end_succeeds_def Let_def triggerSplineSessionAnimation_def
      cleanupRealtimeChannel_def cleanupMediaStreams_def stopHeartbeat_def clearInterval_def
      stopTracks_def getTracks_def)

lemma released_stopTracks_other: "released h s \<Longrightarrow> released (stopTracks h s') s"
  by (cases "s = s'")
    (auto simp add: released_def stopTracks_def getTracks_def stop_def list_all_iff)

lemma cleanupMediaStreams_releases:
  "videoStream st = Some s \<Longrightarrow> released (streams (cleanupMediaStreams st)) s"
  "screenStream st = Some s \<Longrightarrow> released (streams (cleanupMediaStreams st)) s"
  "micStream st = Some s \<Longrightarrow> released (streams (cleanupMediaStreams st)) s"
  by (simp_all add: cleanupMediaStreams_def Let_def released_stopTracks
      released_stopTracks_other split: option.split)

lemma cleanupMediaStreams_clears:
  "videoStream (cleanupMediaStreams st) = None"
  "screenStream (cleanupMediaStreams st) = None"
  "micStream (cleanupMediaStreams st) = None"
  "videoStreamRef (cleanupMediaStreams st) = (if videoStream st = None then videoStreamRef st else None)"
  by (simp_all add: cleanupMediaStreams_def Let_def split: option.split)

lemma stopHeartbeat_media [simp]:
  "streams (stopHeartbeat st) = streams st"
  "videoStream (stopHeartbeat st) = videoStream st"
  "screenStream (stopHeartbeat st) = screenStream st"
  "micStream (stopHeartbeat st) = micStream st"
  by (simp_all add: stopHeartbeat_def split: option.split)

lemma stopHeartbeat_clears_ref [simp]: "heartbeatIntervalRef (stopHeartbeat st) = None"
  by (simp add: stopHeartbeat_def split: option.split)

lemma cleanupRealtimeChannel_media [simp]:
  "streams (cleanupRealtimeChannel st) = streams st"
  "videoStream (cleanupRealtimeChannel st) = videoStream st"
  "screenStream (cleanupRealtimeChannel st) = screenStream st"
  "micStream (cleanupRealtimeChannel st) = micStream st"
  by (simp_all add: cleanupRealtimeChannel_def split: option.split)

lemma cleanupMediaStreams_streams_cong:
  "streams st' = streams st \<Longrightarrow> videoStream st' = videoStream st \<Longrightarrow>
   screenStream st' = screenStream st \<Longrightarrow> micStream st' = micStream st \<Longrightarrow>
   streams (cleanupMediaStreams st') = streams (cleanupMediaStreams st)"
  by (simp add: cleanupMediaStreams_def Let_def split: option.split)

lemma handleEndVoyage_try_finalized:
  assumes "session_end env = EndData d"
  shows "streams (handleEndVoyage_try env sid st) = streams (cleanupMediaStreams st)
    \<and> videoStream (handleEndVoyage_try env sid st) = None
    \<and> screenStream (handleEndVoyage_try env sid st) = None
    \<and> micStream (handleEndVoyage_try env sid st) = None
    \<and> heartbeatIntervalRef (handleEndVoyage_try env sid st) = None"
proof -
  let ?x = "cleanupRealtimeChannel
      (triggerSplineSessionAnimation False (st\<lparr>effects := effects st @ [FetchSessionEnd sid]\<rparr>))"
  have "streams (cleanupMediaStreams ?x) = streams (cleanupMediaStreams st)"
    by (rule cleanupMediaStreams_streams_cong)
      (simp_all add: triggerSplineSessionAnimation_def)
  then show ?thesis
    using assms
    by (simp add: handleEndVoyage_try_def handleEndVoyage_catch_def Let_def
        cleanupMediaStreams_clears split: option.split summary_answer.split)
qed

lemma handleEndVoyage_finalized_media:
  assumes "currentSessionId st = Some sid" and "sid \<noteq> []" and "session_end env = EndData d"
  shows "streams (handleEndVoyage env st) = streams (cleanupMediaStreams st)
    \<and> videoStream (handleEndVoyage env st) = None
    \<and> screenStream (handleEndVoyage env st) = None
    \<and> micStream (handleEndVoyage env st) = None
    \<and> heartbeatIntervalRef (handleEndVoyage env st) = None"
proof -
  let ?st1 = "st\<lparr>sessionError := None, currentSessionId := None,
                    isSessionActive := False, isStartingSession := False,
                    showControlPanel := False, showSummaryPanel := True,
                    isLoadingSummary := True\<rparr>"
  have "streams (cleanupMediaStreams ?st1) = streams (cleanupMediaStreams st)"
    by (rule cleanupMediaStreams_streams_cong) simp_all
  with handleEndVoyage_try_finalized [OF assms(3), of sid ?st1] assms(1,2)
  show ?thesis
    by (simp add: handleEndVoyage_def Let_def)
qed

lemma handleEndVoyage_try_not_finalized:
  assumes "session_end env = EndRejected err \<or> session_end env = EndNotOk status
         \<or> session_end env = EndInvalidJson err"
  shows "streams (handleEndVoyage_try env sid st) = streams st
    \<and> videoStream (handleEndVoyage_try env sid st) = videoStream st
    \<and> screenStream (handleEndVoyage_try env sid st) = screenStream st
    \<and> micStream (handleEndVoyage_try env sid st) = micStream st
    \<and> timers (handleEndVoyage_try env sid st) = timers st
    \<and> heartbeatIntervalRef (handleEndVoyage_try env sid st) = heartbeatIntervalRef st"
proof -
  consider "session_end env = EndRejected err" | "session_end env = EndNotOk status"
    | "session_end env = EndInvalidJson err"
    using assms by blast
  then show ?thesis
    by cases (simp_all add: handleEndVoyage_try_def handleEndVoyage_catch_def Let_def)
qed

lemma handleEndVoyage_not_finalized_media:
  assumes "currentSessionId st = Some sid" and "sid \<noteq> []"
    and "session_end env = EndRejected err \<or> session_end env = EndNotOk status
         \<or> session_end env = EndInvalidJson err"
  shows "streams (handleEndVoyage env st) = streams st
    \<and> videoStream (handleEndVoyage env st) = videoStream st
    \<and> screenStream (handleEndVoyage env st) = screenStream st
    \<and> micStream (handleEndVoyage env st) = micStream st
    \<and> timers (handleEndVoyage env st) = timers st
    \<and> heartbeatIntervalRef (handleEndVoyage env st) = heartbeatIntervalRef st
    \<and> currentSessionId (handleEndVoyage env st) = None"
proof -
  let ?st1 = "st\<lparr>sessionError := None, currentSessionId := None,
                    isSessionActive := False, isStartingSession := False,
                    showControlPanel := False, showSummaryPanel := True,
                    isLoadingSummary := True\<rparr>"
  have "currentSessionId (handleEndVoyage_try env sid ?st1) = None"
    using assms(3)
    by (auto simp add: handleEndVoyage_try_def handleEndVoyage_catch_def Let_def)
  with handleEndVoyage_try_not_finalized [OF assms(3), of sid ?st1] assms(1,2)
  show ?thesis
    by (simp add: handleEndVoyage_def Let_def)
qed

text \<open>
  C3. Media is not released when finalizing fails. Session \<open>s1\<close> is running with microphone
  (stream 0) and camera (stream 1). \<^verbatim>\<open>handleEndVoyage\<close> is invoked and the
  \<^verbatim>\<open>session-end\<close> request is answered with status 500: the session id is cleared and the
  error is surfaced, but both streams are still held and live, and the heartbeat interval
  is still set. With a finalized session the same call releases both.
\<close>

theorem end_voyage_failed_finalize_keeps_media:
  "currentSessionId started_s1 = Some ''s1''
   \<and> videoStream started_s1 = Some 1 \<and> micStream started_s1 = Some 0
   \<and> currentSessionId (handleEndVoyage end_fails started_s1) = None
   \<and> sessionError (handleEndVoyage end_fails started_s1) =
       Some ''Session end failed: 500 Internal Server Error''
   \<and> videoStream (handleEndVoyage end_fails started_s1) = Some 1
   \<and> micStream (handleEndVoyage end_fails started_s1) = Some 0
   \<and> active (streams (handleEndVoyage end_fails started_s1)) 1
   \<and> active (streams (handleEndVoyage end_fails started_s1)) 0
   \<and> \<not> released (streams (handleEndVoyage end_fails started_s1)) 1
   \<and> \<not> released (streams (handleEndVoyage end_fails started_s1)) 0
   \<and> heartbeatIntervalRef (handleEndVoyage end_fails started_s1) = Some 2
   \<and> videoStream (handleEndVoyage end_succeeds started_s1) = None
   \<and> micStream (handleEndVoyage end_succeeds started_s1) = None
   \<and> released (streams (handleEndVoyage end_succeeds started_s1)) 1
   \<and> released (streams (handleEndVoyage end_succeeds started_s1)) 0"
  by (simp add: ended_s1_failed_eq ended_s1_eq)
    (simp add: started_s1_eq media_defs live_camera_def live_microphone_def)

subsection \<open>Stopping the heartbeat\<close>

text \<open>
  C5. The timer invariant of reachable states is \<open>heartbeat_invariant_reachable\<close> above: at
  most one recurring timer, present exactly when the ref is set and the flag is true. But
  a null ref does not mean that no evaluation is pending: \<^verbatim>\<open>startHeartbeat\<close> drops the
  handle of the 8-second timeout, so \<^verbatim>\<open>stopHeartbeat\<close> cannot clear it. After
  \<^verbatim>\<open>stopHeartbeat\<close> in
  session \<open>s1\<close>, called directly, by a successful \<^verbatim>\<open>handleEndVoyage\<close> or by the unmount
  cleanup, the ref is null and the flag false, the heartbeat tick for \<open>s1\<close> is still pending,
  and at 8 seconds it runs: with the camera still live (as after the unmount cleanup) it
  sends a heartbeat request for \<open>s1\<close>.
\<close>

theorem stopped_heartbeat_still_fires:
  "heartbeatIntervalRef (stopHeartbeat started_s1) = None
   \<and> \<not> isHeartbeatActive (stopHeartbeat started_s1)
   \<and> map callback (timers (stopHeartbeat started_s1)) =
       [HeartbeatTick False ''s1'' True, PassiveListeningStart ''s1'']
   \<and> effects (run [Advance 8000, Fire 1 (heartbeat_reporting False None)]
                (stopHeartbeat started_s1)) =
       effects started_s1 @
         [InvokeSessionHeartbeat ''s1'' (Some ''data:image/jpeg;base64,frame'') None]
   \<and> heartbeatIntervalRef (handleEndVoyage end_succeeds started_s1) = None
   \<and> \<not> isHeartbeatActive (handleEndVoyage end_succeeds started_s1)
   \<and> map callback (timers (handleEndVoyage end_succeeds started_s1)) =
       [HeartbeatTick False ''s1'' True, PassiveListeningStart ''s1'']
   \<and> map callback (timers (run [Advance 8000, Fire 1 (heartbeat_reporting False None)]
                              (handleEndVoyage end_succeeds started_s1))) =
       [PassiveListeningStart ''s1'']
   \<and> heartbeatIntervalRef (run [Unmount] started_s1) = None
   \<and> \<not> isHeartbeatActive (run [Unmount] started_s1)
   \<and> effects (run [Unmount, Advance 8000, Fire 1 (heartbeat_reporting False None)] started_s1) =
       effects started_s1 @
         [RemoveChannel ''s1'', StopPassiveListening,
          InvokeSessionHeartbeat ''s1'' (Some ''data:image/jpeg;base64,frame'') None]"
  by (simp add: ended_s1_eq)
    (simp add: started_s1_eq heartbeat_defs heartbeat_reporting_def good_capture_def
      data_uri_def unmount_def cleanupRealtimeChannel_def Let_def)

subsection \<open>Remote end of the session\<close>

lemma find_newer_handle:
  "list_all (\<lambda>t. handle t < n) ts \<Longrightarrow> n \<le> m \<Longrightarrow>
   find (\<lambda>t. handle t = m) (ts @ us) = find (\<lambda>t. handle t = m) us"
  by (induction ts) auto

lemma rearm_newer_handle:
  "list_all (\<lambda>t. handle t < n) ts \<Longrightarrow> n \<le> m \<Longrightarrow>
   map (\<lambda>u. if handle u = m then f u else u) ts = ts"
  by (induction ts) auto

lemma capture_reads_refs:
  "videoStreamRef st' = videoStreamRef st \<Longrightarrow>
   captureCameraFrame cenv st' = captureCameraFrame cenv st"
  "screenStreamRef st' = screenStreamRef st \<Longrightarrow>
   captureScreenFrame cenv st' = captureScreenFrame cenv st"
  by (simp_all add: captureCameraFrame_def captureScreenFrame_def)

lemma sendHeartbeat_request:
  assumes "sid \<noteq> []" and "act"
    and "captureCameraFrame (camera_capture env) st = Inr cam"
    and "captureScreenFrame (screen_capture env) st = Inr scr"
    and "cam \<noteq> None \<or> scr \<noteq> None"
    and "encode_image (blobToBase64 env) cam = Some cam64"
    and "encode_image (blobToBase64 env) scr = Some scr64"
  shows "\<exists>rest. effects (sendHeartbeat c sid act env st) =
           effects st @ InvokeSessionHeartbeat sid cam64 scr64 # rest"
  using assms
  by (auto simp add: sendHeartbeat_def Let_def handle_drift_state_def
      split: invoke_answer.split option.split)

lemma sendHeartbeat_session_cells [simp]:
  "currentSessionId (sendHeartbeat c sid act env st) = currentSessionId st"
  "isSessionActive (sendHeartbeat c sid act env st) = isSessionActive st"
  by (simp_all add: sendHeartbeat_def Let_def handle_drift_state_def
      split: sum.split option.split invoke_answer.split prod.split)

text \<open>
  C10. The handler of \<^verbatim>\<open>session_ended\<close> clears the active flag and the session id and
  nothing else: timers, heartbeat ref and flag, streams and stream cells, the channel ref
  and the request log are unchanged. The tick scheduled by \<^verbatim>\<open>startHeartbeat(sid, true)\<close>
  holds \<open>sid\<close> and \<open>true\<close> by value. So when a heartbeat is started for a non-empty \<open>sid\<close>
  (no heartbeat running before, timer handles older than the next handle), the session is
  then ended remotely and 60 seconds or more pass, the interval runs a heartbeat that
  captures frames and, when a frame is captured and encoded, sends a request for \<open>sid\<close>,
  although the session id cell is null.
\<close>

theorem remote_end_leaves_heartbeat_running:
  assumes "heartbeatIntervalRef st = None"
    and "list_all (\<lambda>t. handle t < nextHandle st) (timers st)"
    and "sid \<noteq> []" and "60000 \<le> d"
    and "captureCameraFrame (camera_capture env) st = Inr cam"
    and "captureScreenFrame (screen_capture env) st = Inr scr"
    and "cam \<noteq> None \<or> scr \<noteq> None"
    and "encode_image (blobToBase64 env) cam = Some cam64"
    and "encode_image (blobToBase64 env) scr = Some scr64"
  shows "on_session_ended s = s\<lparr>isSessionActive := False, currentSessionId := None\<rparr>
   \<and> timers (on_session_ended s) = timers s
   \<and> heartbeatIntervalRef (on_session_ended s) = heartbeatIntervalRef s
   \<and> isHeartbeatActive (on_session_ended s) = isHeartbeatActive s
   \<and> streams (on_session_ended s) = streams s
   \<and> videoStream (on_session_ended s) = videoStream s
   \<and> screenStream (on_session_ended s) = screenStream s
   \<and> micStream (on_session_ended s) = micStream s
   \<and> videoStreamRef (on_session_ended s) = videoStreamRef s
   \<and> screenStreamRef (on_session_ended s) = screenStreamRef s
   \<and> realtimeChannelRef (on_session_ended s) = realtimeChannelRef s
   \<and> effects (on_session_ended s) = effects s
   \<and> callback (last (timers (startHeartbeat sid True st))) = HeartbeatTick (isDrifting st) sid True
   \<and> currentSessionId
        (run [SessionEndedRemotely, Advance d, Fire (nextHandle st + 1) env]
           (startHeartbeat sid True st)) = None
   \<and> (\<exists>rest. effects
        (run [SessionEndedRemotely, Advance d, Fire (nextHandle st + 1) env]
           (startHeartbeat sid True st)) =
        effects st @ InvokeSessionHeartbeat sid cam64 scr64 # rest)"
proof -
  let ?tick = "HeartbeatTick (isDrifting st) sid True"
  let ?y = "st\<lparr>isHeartbeatActive := True,
               nextHandle := nextHandle st + 2,
               heartbeatIntervalRef := Some (nextHandle st + 1),
               isSessionActive := False, currentSessionId := None, now := now st + d,
               timers := timers st @
                 [\<lparr>handle = nextHandle st, due = now st + 8000, period = None, callback = ?tick\<rparr>,
                  \<lparr>handle = nextHandle st + 1, due = now st + d + 60000, period = Some 60000,
                    callback = ?tick\<rparr>]\<rparr>"
  have fired: "run [SessionEndedRemotely, Advance d, Fire (nextHandle st + 1) env]
           (startHeartbeat sid True st) = sendHeartbeat (isDrifting st) sid True env ?y"
    using assms(1,4) find_newer_handle [OF assms(2), of "Suc (nextHandle st)"]
      rearm_newer_handle [OF assms(2), of "Suc (nextHandle st)"]
    by (simp add: startHeartbeat_def on_session_ended_def fire_def run_callback_def Let_def)
  have cam: "captureCameraFrame (camera_capture env) ?y = Inr cam"
    using assms(5) capture_reads_refs(1) [of ?y st "camera_capture env"] by simp
  have scr: "captureScreenFrame (screen_capture env) ?y = Inr scr"
    using assms(6) capture_reads_refs(2) [of ?y st "screen_capture env"] by simp
  from sendHeartbeat_request [OF assms(3) _ cam scr assms(7,8,9), of True "isDrifting st"]
  have request: "\<exists>rest. effects (sendHeartbeat (isDrifting st) sid True env ?y) =
           effects st @ InvokeSessionHeartbeat sid cam64 scr64 # rest"
    by simp
  have tick: "callback (last (timers (startHeartbeat sid True st))) = ?tick"
    using assms(1) by (simp add: startHeartbeat_def Let_def)
  have frame: "on_session_ended s = s\<lparr>isSessionActive := False, currentSessionId := None\<rparr>
   \<and> timers (on_session_ended s) = timers s
   \<and> heartbeatIntervalRef (on_session_ended s) = heartbeatIntervalRef s
   \<and> isHeartbeatActive (on_session_ended s) = isHeartbeatActive s
   \<and> streams (on_session_ended s) = streams s
   \<and> videoStream (on_session_ended s) = videoStream s
   \<and> screenStream (on_session_ended s) = screenStream s
   \<and> micStream (on_session_ended s) = micStream s
   \<and> videoStreamRef (on_session_ended s) = videoStreamRef s
   \<and> screenStreamRef (on_session_ended s) = screenStreamRef s
   \<and> realtimeChannelRef (on_session_ended s) = realtimeChannelRef s
   \<and> effects (on_session_ended s) = effects s"
    by (simp add: on_session_ended_def)
  have ended: "currentSessionId (sendHeartbeat (isDrifting st) sid True env ?y) = None"
    by simp
  from frame tick ended request show ?thesis
    unfolding fired by blast
qed

text \<open>
  With the camera on, a heartbeat is started for \<open>s1\<close>, the session is ended remotely, and at
  60 seconds the interval (handle 2) sends a camera frame for \<open>s1\<close>.
\<close>

theorem remote_end_witness:
  "currentSessionId
     (run [SessionEndedRemotely, Advance 60000, Fire 2 (heartbeat_reporting False None)]
        (startHeartbeat ''s1'' True camera_on_panel)) = None
   \<and> effects
     (run [SessionEndedRemotely, Advance 60000, Fire 2 (heartbeat_reporting False None)]
        (startHeartbeat ''s1'' True camera_on_panel)) =
     [GetUserMedia HighQuality,
      InvokeSessionHeartbeat ''s1'' (Some ''data:image/jpeg;base64,frame'') None]
   \<and> heartbeatIntervalRef (on_session_ended started_s1) = Some 2
   \<and> videoStream (on_session_ended started_s1) = Some 1
   \<and> realtimeChannelRef (on_session_ended started_s1) = Some ''s1''"
proof -
  have pre: "heartbeatIntervalRef camera_on_panel = None"
    "list_all (\<lambda>t. handle t < nextHandle camera_on_panel) (timers camera_on_panel)"
    "''s1'' \<noteq> []" "(60000::nat) \<le> 60000"
    "captureCameraFrame (camera_capture (heartbeat_reporting False None)) camera_on_panel
       = Inr (Some ''frame'')"
    "captureScreenFrame (screen_capture (heartbeat_reporting False None)) camera_on_panel
       = Inr None"
    "Some ''frame'' \<noteq> None \<or> (None :: string option) \<noteq> None"
    "encode_image (blobToBase64 (heartbeat_reporting False None)) (Some ''frame'')
       = Some (Some ''data:image/jpeg;base64,frame'')"
    "encode_image (blobToBase64 (heartbeat_reporting False None)) None = Some None"
    by (simp_all add: camera_on_panel_eq initial_panel_def heartbeat_reporting_def
        captureCameraFrame_def captureScreenFrame_def capture_try_def good_capture_def
        encode_image_def data_uri_def)
  have next2: "nextHandle camera_on_panel + 1 = 2"
    by (simp add: camera_on_panel_eq initial_panel_def)
  have direct: "effects
     (run [SessionEndedRemotely, Advance 60000, Fire 2 (heartbeat_reporting False None)]
        (startHeartbeat ''s1'' True camera_on_panel)) =
     [GetUserMedia HighQuality,
      InvokeSessionHeartbeat ''s1'' (Some ''data:image/jpeg;base64,frame'') None]"
    by (simp add: camera_on_panel_eq initial_panel_def heartbeat_defs on_session_ended_def
        heartbeat_reporting_def good_capture_def data_uri_def Let_def)
  from remote_end_leaves_heartbeat_running [OF pre, of started_s1, unfolded next2] direct
  show ?thesis
    by (simp add: started_s1_eq)
qed

end
